theory Spec2Isabelle
  imports Main "HOL-Library.Word"
begin

unbundle bit_operations_syntax

section \<open>Common types\<close>

text \<open>
  A Go \<^verbatim>\<open>error\<close> is represented by the message it carries (\<^verbatim>\<open>err.Error()\<close>);
  the absence of an error (\<^verbatim>\<open>nil\<close>) is \<open>None\<close> of \<open>error option\<close>, and a
  function returning \<^verbatim>\<open>(T, error)\<close> returns \<open>error + T\<close>.
  A call that can panic has an \<open>outcome\<close>: it returns, or it panics with a message.
\<close>

type_synonym error = string
type_synonym u32 = "32 word"
type_synonym byte = "8 word"

datatype 'a outcome = Returns 'a | Panic string

section \<open>The broker (\<^verbatim>\<open>MuxBroker\<close>)\<close>

text \<open>
  \<^verbatim>\<open>muxBrokerPending\<close> holds a channel of capacity one (\<open>ch\<close>: the stream buffered
  in it, if any) and the completion channel \<open>doneCh\<close>, of which only "closed or not"
  is observable. A connection or stream is identified by a number.
\<close>

type_synonym conn = nat

record muxBrokerPending =
  ch :: "conn option"
  doneCh_closed :: bool

record MuxBroker =
  nextId :: u32
  streams :: "u32 \<rightharpoonup> muxBrokerPending"

definition newMuxBroker :: MuxBroker where
  "newMuxBroker = \<lparr>nextId = 0, streams = Map.empty\<rparr>"

text \<open>
  \<^verbatim>\<open>atomic.AddUint32(&m.nextId, 1)\<close>: one indivisible step that adds 1 modulo \<open>2^32\<close>
  and returns the new value.
\<close>

definition NextId :: "MuxBroker \<Rightarrow> u32 \<times> MuxBroker" where
  "NextId m = (nextId m + 1, m\<lparr>nextId := nextId m + 1\<rparr>)"

text \<open>The broker after \<open>n\<close> calls of \<open>NextId\<close>, and the value the \<open>n\<close>-th call returns.\<close>

fun NextId_calls :: "nat \<Rightarrow> MuxBroker \<Rightarrow> MuxBroker" where
  "NextId_calls 0 m = m"
| "NextId_calls (Suc n) m = snd (NextId (NextId_calls n m))"

definition NextId_nth :: "nat \<Rightarrow> MuxBroker \<Rightarrow> u32" where
  "NextId_nth n m = fst (NextId (NextId_calls (n - 1) m))"

subsection \<open>Observable effects\<close>

text \<open>
  Calls that leave the process (on the multiplexer, on a stream, on the control RPC
  endpoint, on a plugin factory, on the child process) are recorded, in order, in a trace.
  What such a call returns is not computed by this repository: it is an input of the
  model (a record of results, one field per call site).
\<close>

datatype event =
    OpenStream "conn option"
  | StreamWrite conn "byte list"
  | StreamRead conn
  | StreamClose conn
  | ControlCall string
  | ControlClose
  | StdoutClose
  | StderrClose
  | BrokerClose
  | PluginServer string
  | PluginClient string conn
  | Go string
  | ProcessStart nat
  | ProcessKill nat

text \<open>The streams a trace has opened and not closed, in the order they were opened.\<close>

fun open_streams :: "event list \<Rightarrow> conn list" where
  "open_streams [] = []"
| "open_streams (OpenStream (Some s) # es) =
     (if StreamClose s \<in> set es then open_streams es else s # open_streams es)"
| "open_streams (e # es) = open_streams es"

subsection \<open>Wire format of a stream identifier\<close>

text \<open>
  \<^verbatim>\<open>binary.Write(stream, binary.LittleEndian, id)\<close> writes the four bytes of \<open>le_bytes sid\<close>
  in one \<^verbatim>\<open>Write\<close>; \<^verbatim>\<open>binary.Read(stream, binary.LittleEndian, &ack)\<close> reads exactly four
  bytes (\<^verbatim>\<open>io.ReadFull\<close>), or fails, and decodes them with \<open>le_uint32\<close>.
\<close>

definition le_bytes :: "u32 \<Rightarrow> byte list" where
  "le_bytes v = [ucast v, ucast (drop_bit 8 v), ucast (drop_bit 16 v), ucast (drop_bit 24 v)]"

fun le_uint32 :: "byte \<times> byte \<times> byte \<times> byte \<Rightarrow> u32" where
  "le_uint32 (b0, b1, b2, b3) =
     ucast b0 OR push_bit 8 (ucast b1) OR push_bit 16 (ucast b2) OR push_bit 24 (ucast b3)"

text \<open>The verb \<^verbatim>\<open>%d\<close> of \<^verbatim>\<open>fmt\<close> on an unsigned integer: its decimal digits.\<close>

definition digit :: "nat \<Rightarrow> char" where
  "digit d = ''0123456789'' ! d"

fun decimal :: "nat \<Rightarrow> string" where
  "decimal n = (if n < 10 then [digit n] else decimal (n div 10) @ [digit (n mod 10)])"

declare decimal.simps [simp del]

subsection \<open>\<^verbatim>\<open>MuxBroker.Dial\<close>\<close>

record dial_env =
  OpenStream_result :: "error + conn"
  Write_result :: "error option"
  ReadFull_result :: "error + byte \<times> byte \<times> byte \<times> byte"

definition bad_ack :: "u32 \<Rightarrow> u32 \<Rightarrow> error" where
  "bad_ack ack sid = ''bad ack: '' @ decimal (unat ack) @ '' (expected '' @ decimal (unat sid) @ '')''"

definition Dial :: "dial_env \<Rightarrow> u32 \<Rightarrow> event list \<times> (error + conn)" where
  "Dial env sid =
     (case OpenStream_result env of
        Inl err \<Rightarrow> ([OpenStream None], Inl err)
      | Inr stream \<Rightarrow>
          (case Write_result env of
             Some err \<Rightarrow>
               ([OpenStream (Some stream), StreamWrite stream (le_bytes sid),
                 StreamClose stream], Inl err)
           | None \<Rightarrow>
               (case ReadFull_result env of
                  Inl err \<Rightarrow>
                    ([OpenStream (Some stream), StreamWrite stream (le_bytes sid),
                      StreamRead stream, StreamClose stream], Inl err)
                | Inr bs \<Rightarrow>
                    (let ack = le_uint32 bs in
                     if ack \<noteq> sid then
                       ([OpenStream (Some stream), StreamWrite stream (le_bytes sid),
                         StreamRead stream, StreamClose stream], Inl (bad_ack ack sid))
                     else
                       ([OpenStream (Some stream), StreamWrite stream (le_bytes sid),
                         StreamRead stream], Inr stream)))))"

subsection \<open>\<^verbatim>\<open>MuxBroker.getStream\<close> and \<^verbatim>\<open>MuxBroker.Accept\<close>\<close>

definition getStream :: "MuxBroker \<Rightarrow> u32 \<Rightarrow> muxBrokerPending \<times> MuxBroker" where
  "getStream m sid =
     (case streams m sid of
        Some p \<Rightarrow> (p, m)
      | None \<Rightarrow>
          (let p = \<lparr>ch = None, doneCh_closed = False\<rparr>
           in (p, m\<lparr>streams := (streams m)(sid \<mapsto> p)\<rparr>)))"

text \<open>
  The \<^verbatim>\<open>select\<close> of \<open>Accept\<close> receives from \<open>p.ch\<close> or from \<^verbatim>\<open>time.After(5 * time.Second)\<close>.
  If a stream is already buffered in \<open>p.ch\<close> it is received at once. Otherwise the
  environment says when, in nanoseconds after the call, \<open>Run\<close> hands a stream for this
  identifier to \<open>p.ch\<close> (\<open>None\<close>: never); the receive wins when that is before the
  timer fires. Closing \<open>p.doneCh\<close> a second time is a run-time panic in Go.
\<close>

definition Second :: nat where
  "Second = 1000000000"

record accept_env =
  delivery :: "(nat \<times> conn) option"
  ack_Write_result :: "error option"

definition Accept_select :: "accept_env \<Rightarrow> muxBrokerPending \<Rightarrow> conn option" where
  "Accept_select env p =
     (case ch p of
        Some c \<Rightarrow> Some c
      | None \<Rightarrow>
          (case delivery env of
             None \<Rightarrow> None
           | Some (t, c) \<Rightarrow> if t < 5 * Second then Some c else None))"

definition Accept ::
  "accept_env \<Rightarrow> MuxBroker \<Rightarrow> u32 \<Rightarrow> MuxBroker \<times> event list \<times> (error + conn) outcome" where
  "Accept env m0 sid =
     (let (p, m) = getStream m0 sid in
      case Accept_select env p of
        None \<Rightarrow>
          (m\<lparr>streams := (streams m)(sid := None)\<rparr>, [],
           Returns (Inl ''timeout waiting for accept''))
      | Some c \<Rightarrow>
          if doneCh_closed p then
            (m\<lparr>streams := (streams m)(sid \<mapsto> p\<lparr>ch := None\<rparr>)\<rparr>, [],
             Panic ''close of closed channel'')
          else
            (let m' = m\<lparr>streams := (streams m)(sid \<mapsto> p\<lparr>ch := None, doneCh_closed := True\<rparr>)\<rparr>
             in case ack_Write_result env of
                  Some err \<Rightarrow>
                    (m', [StreamWrite c (le_bytes sid), StreamClose c], Returns (Inl err))
                | None \<Rightarrow> (m', [StreamWrite c (le_bytes sid)], Returns (Inr c))))"

section \<open>The client runtime (\<^verbatim>\<open>RPCClient\<close>)\<close>

subsection \<open>\<^verbatim>\<open>RPCClient.Close\<close>\<close>

record close_env =
  Quit_result :: "error option"
  control_Close_result :: "error option"
  stdout_Close_result :: "error option"
  stderr_Close_result :: "error option"
  broker_Close_result :: "error option"

definition RPCClient_Close :: "close_env \<Rightarrow> event list \<times> error option" where
  "RPCClient_Close env =
     (let returnErr = Quit_result env in
      case control_Close_result env of
        Some err \<Rightarrow> ([ControlCall ''Control.Quit'', ControlClose], Some err)
      | None \<Rightarrow>
          (case stdout_Close_result env of
             Some err \<Rightarrow> ([ControlCall ''Control.Quit'', ControlClose, StdoutClose], Some err)
           | None \<Rightarrow>
               (case stderr_Close_result env of
                  Some err \<Rightarrow>
                    ([ControlCall ''Control.Quit'', ControlClose, StdoutClose, StderrClose],
                     Some err)
                | None \<Rightarrow>
                    (case broker_Close_result env of
                       Some err \<Rightarrow>
                         ([ControlCall ''Control.Quit'', ControlClose, StdoutClose, StderrClose,
                           BrokerClose], Some err)
                     | None \<Rightarrow>
                         ([ControlCall ''Control.Quit'', ControlClose, StdoutClose, StderrClose,
                           BrokerClose], returnErr)))))"

subsection \<open>\<^verbatim>\<open>RPCClient.Dispense\<close>\<close>

text \<open>
  A plugin factory (\<^verbatim>\<open>Plugin\<close>) is a value of a type \<open>'p\<close>; what its methods
  \<^verbatim>\<open>Server\<close> and \<^verbatim>\<open>Client\<close> return is given by the environment.
\<close>

record ('p, 'i) dispense_env =
  Dispense_reply :: "error + u32"
  dial :: dial_env
  plugin_Client :: "'p \<Rightarrow> conn \<Rightarrow> error + 'i"

definition unknown_plugin :: "string \<Rightarrow> error" where
  "unknown_plugin name = ''unknown plugin type: '' @ name"

definition RPCClient_Dispense ::
  "('p, 'i) dispense_env \<Rightarrow> (string \<rightharpoonup> 'p) \<Rightarrow> string \<Rightarrow> event list \<times> (error + 'i)" where
  "RPCClient_Dispense env plugins name =
     (case plugins name of
        None \<Rightarrow> ([], Inl (unknown_plugin name))
      | Some p \<Rightarrow>
          (case Dispense_reply env of
             Inl err \<Rightarrow> ([ControlCall ''Dispenser.Dispense''], Inl err)
           | Inr sid \<Rightarrow>
               (case Dial (dial env) sid of
                  (tr, Inl err) \<Rightarrow> (ControlCall ''Dispenser.Dispense'' # tr, Inl err)
                | (tr, Inr conn) \<Rightarrow>
                    (ControlCall ''Dispenser.Dispense'' # tr @ [PluginClient name conn],
                     plugin_Client env p conn))))"

section \<open>The server runtime (\<^verbatim>\<open>RPCServer\<close>)\<close>

subsection \<open>\<^verbatim>\<open>dispenseServer.Dispense\<close>\<close>

record 'p dispenseServer =
  broker :: MuxBroker
  plugins :: "string \<rightharpoonup> 'p"

text \<open>
  \<^verbatim>\<open>errors.New(err.Error())\<close> keeps the message, so the error of the constructor is
  returned as it is. The goroutine that accepts and serves the stream is recorded as
  started; it runs after the call has returned.
\<close>

definition dispenseServer_Dispense ::
  "('p \<Rightarrow> error + 'h) \<Rightarrow> 'p dispenseServer \<Rightarrow> string \<Rightarrow>
     'p dispenseServer \<times> event list \<times> (error + u32)" where
  "dispenseServer_Dispense plugin_Server d name =
     (case plugins d name of
        None \<Rightarrow> (d, [], Inl (unknown_plugin name))
      | Some p \<Rightarrow>
          (case plugin_Server p of
             Inl err \<Rightarrow> (d, [PluginServer name], Inl err)
           | Inr impl \<Rightarrow>
               (let (sid, b) = NextId (broker d)
                in (d\<lparr>broker := b\<rparr>, [PluginServer name, Go ''Accept''], Inr sid))))"

subsection \<open>\<^verbatim>\<open>RPCServer.done\<close> and \<^verbatim>\<open>controlServer.Quit\<close>\<close>

text \<open>
  \<open>DoneCh\<close> is \<^verbatim>\<open>nil\<close> or a channel, identified by a number; \<open>closes\<close> is the list of
  the channels that \<^verbatim>\<open>close\<close> was applied to so far, so a channel is closed when it
  occurs in it. \<^verbatim>\<open>close\<close> of a closed channel panics. The body of \<^verbatim>\<open>done\<close> runs under
  \<^verbatim>\<open>s.lock\<close>, hence as one step.
\<close>

record RPCServer =
  DoneCh :: "nat option"
  closes :: "nat list"

definition RPCServer_done :: "RPCServer \<Rightarrow> RPCServer outcome" where
  "RPCServer_done s =
     (case DoneCh s of
        None \<Rightarrow> Returns s
      | Some c \<Rightarrow>
          if c \<in> set (closes s) then Panic ''close of closed channel''
          else Returns (s\<lparr>closes := closes s @ [c], DoneCh := None\<rparr>))"

text \<open>
  \<open>Quit\<close> returns the server as it leaves it, the response (the empty struct, which has
  one value) and its error, which is always \<^verbatim>\<open>nil\<close>.
\<close>

definition controlServer_Quit :: "RPCServer \<Rightarrow> (RPCServer \<times> unit \<times> error option) outcome" where
  "controlServer_Quit s =
     (case RPCServer_done s of
        Panic msg \<Rightarrow> Panic msg
      | Returns s' \<Rightarrow> Returns (s', (), None))"

text \<open>
  \<open>n\<close> calls of \<open>Quit\<close>, one after the other (the lock orders them): the server after
  the last one, and what each call returned.
\<close>

fun Quit_calls :: "nat \<Rightarrow> RPCServer \<Rightarrow> (RPCServer \<times> (unit \<times> error option) list) outcome" where
  "Quit_calls 0 s = Returns (s, [])"
| "Quit_calls (Suc n) s =
     (case controlServer_Quit s of
        Panic msg \<Rightarrow> Panic msg
      | Returns (s', reply) \<Rightarrow>
          (case Quit_calls n s' of
             Panic msg \<Rightarrow> Panic msg
           | Returns (s'', replies) \<Rightarrow> Returns (s'', reply # replies)))"

text \<open>\<^verbatim>\<open>Serve\<close> makes a fresh channel and stores it in the server it builds.\<close>

definition Serve_server :: RPCServer where
  "Serve_server = \<lparr>DoneCh = Some 0, closes = []\<rparr>"

section \<open>The process supervisor (\<^verbatim>\<open>Client\<close>)\<close>

subsection \<open>Strings: \<^verbatim>\<open>strings.TrimSpace\<close>, \<^verbatim>\<open>strings.SplitN\<close>, a scanned line\<close>

text \<open>
  A Go string is a sequence of bytes. \<^verbatim>\<open>strings.TrimSpace\<close> removes the leading and the
  trailing white-space code points of the UTF-8 text: the six ASCII ones
  (\<^verbatim>\<open>\t \n \v \f \r\<close> and the space) and U+0085, U+00A0, U+1680, U+2000 to U+200A, U+2028,
  U+2029, U+202F, U+205F, U+3000, which are two or three bytes each. The trailing ones are
  removed on the reversed string.
\<close>

definition ascii_space :: "char list" where
  "ascii_space = [CHR 0x09, CHR 0x0A, CHR 0x0B, CHR 0x0C, CHR 0x0D, CHR 0x20]"

definition utf8_space :: "string list" where
  "utf8_space =
     [[CHR 0xC2, CHR 0x85], [CHR 0xC2, CHR 0xA0], [CHR 0xE1, CHR 0x9A, CHR 0x80],
      [CHR 0xE2, CHR 0x80, CHR 0x80], [CHR 0xE2, CHR 0x80, CHR 0x81],
      [CHR 0xE2, CHR 0x80, CHR 0x82], [CHR 0xE2, CHR 0x80, CHR 0x83],
      [CHR 0xE2, CHR 0x80, CHR 0x84], [CHR 0xE2, CHR 0x80, CHR 0x85],
      [CHR 0xE2, CHR 0x80, CHR 0x86], [CHR 0xE2, CHR 0x80, CHR 0x87],
      [CHR 0xE2, CHR 0x80, CHR 0x88], [CHR 0xE2, CHR 0x80, CHR 0x89],
      [CHR 0xE2, CHR 0x80, CHR 0x8A], [CHR 0xE2, CHR 0x80, CHR 0xA8],
      [CHR 0xE2, CHR 0x80, CHR 0xA9], [CHR 0xE2, CHR 0x80, CHR 0xAF],
      [CHR 0xE2, CHR 0x81, CHR 0x9F], [CHR 0xE3, CHR 0x80, CHR 0x80]]"

fun TrimLeft :: "string \<Rightarrow> string" where
  "TrimLeft [] = []"
| "TrimLeft (c # cs) =
     (if c \<in> set ascii_space then TrimLeft cs
      else if take 2 (c # cs) \<in> set utf8_space then TrimLeft (drop 1 cs)
      else if take 3 (c # cs) \<in> set utf8_space then TrimLeft (drop 2 cs)
      else c # cs)"

fun TrimRight_rev :: "string \<Rightarrow> string" where
  "TrimRight_rev [] = []"
| "TrimRight_rev (c # cs) =
     (if c \<in> set ascii_space then TrimRight_rev cs
      else if rev (take 2 (c # cs)) \<in> set utf8_space then TrimRight_rev (drop 1 cs)
      else if rev (take 3 (c # cs)) \<in> set utf8_space then TrimRight_rev (drop 2 cs)
      else c # cs)"

definition TrimSpace :: "string \<Rightarrow> string" where
  "TrimSpace s = rev (TrimRight_rev (rev (TrimLeft s)))"

text \<open>
  \<^verbatim>\<open>strings.SplitN(s, sep, n)\<close> for a separator of one byte: at most \<open>n\<close> pieces, the last
  one the unsplit rest; no piece for \<open>n = 0\<close>.
\<close>

fun SplitN :: "string \<Rightarrow> char \<Rightarrow> nat \<Rightarrow> string list" where
  "SplitN s sep 0 = []"
| "SplitN s sep (Suc 0) = [s]"
| "SplitN s sep (Suc (Suc n)) =
     (if sep \<in> set s
      then takeWhile (\<lambda>c. c \<noteq> sep) s # SplitN (tl (dropWhile (\<lambda>c. c \<noteq> sep) s)) sep (Suc n)
      else [s])"

text \<open>
  The first token of a \<^verbatim>\<open>bufio.Scanner\<close> with the default split function
  (\<^verbatim>\<open>ScanLines\<close>): the text before the first newline, without one trailing carriage return.
\<close>

definition ScanLine :: "string \<Rightarrow> string" where
  "ScanLine out =
     (let l = takeWhile (\<lambda>c. c \<noteq> CHR 0x0A) out
      in if l \<noteq> [] \<and> last l = CHR 0x0D then butlast l else l)"

subsection \<open>The handshake line the server prints (\<^verbatim>\<open>Serve\<close>)\<close>

definition CoreProtocolVersion :: nat where
  "CoreProtocolVersion = 1"

text \<open>\<^verbatim>\<open>fmt.Printf("%d|1|%s|%s\n", CoreProtocolVersion, network, address)\<close>.\<close>

definition Serve_handshake :: "string \<Rightarrow> string \<Rightarrow> string" where
  "Serve_handshake network address =
     decimal CoreProtocolVersion @ ''|1|'' @ network @ ''|'' @ address @ [CHR 0x0A]"

subsection \<open>Addresses\<close>

text \<open>
  A \<^verbatim>\<open>net.Addr\<close> is a TCP or a Unix address, with its printed form.
  \<^verbatim>\<open>net.ResolveUnixAddr("unix", a)\<close> always succeeds, with the name \<open>a\<close>;
  what \<^verbatim>\<open>net.ResolveTCPAddr("tcp", a)\<close> returns (the printed form of the address, or an
  error) is an input of the model.
\<close>

datatype Addr = TCPAddr string | UnixAddr string

fun Network :: "Addr \<Rightarrow> string" where
  "Network (TCPAddr a) = ''tcp''"
| "Network (UnixAddr a) = ''unix''"

fun Addr_String :: "Addr \<Rightarrow> string" where
  "Addr_String (TCPAddr a) = a"
| "Addr_String (UnixAddr a) = a"

subsection \<open>\<^verbatim>\<open>Client\<close> and \<^verbatim>\<open>Client.Start\<close>\<close>

text \<open>
  The fields of \<^verbatim>\<open>Client\<close> that the supervisor reads or writes. \<open>proc\<close> is the process
  identifier of the child, \<open>proto\<close> says whether an RPC client is cached, \<open>doneCtx\<close> is
  \<^verbatim>\<open>nil\<close> or a context that is cancelled or not, the two wait groups are their counters,
  and \<open>cmd_Env\<close> is \<^verbatim>\<open>config.Cmd.Env\<close>.
\<close>

record Client =
  cmd_Env :: "string list"
  exited :: bool
  addr :: "Addr option"
  proc :: "nat option"
  proto :: bool
  doneCtx :: "bool option"
  clientWg :: nat
  stderrWg :: nat
  procKilled :: bool

definition NewClient :: "string list \<Rightarrow> Client" where
  "NewClient env =
     \<lparr>cmd_Env = env, exited = False, addr = None, proc = None, proto = False, doneCtx = None,
      clientWg = 0, stderrWg = 0, procKilled = False\<rparr>"

text \<open>
  The branch \<^verbatim>\<open>case line := <-linesCh\<close> of the \<^verbatim>\<open>select\<close> in \<open>Start\<close>. It returns the
  value that the variable \<^verbatim>\<open>err\<close> of \<open>Start\<close> holds when the branch is left (the
  branch assigns it only in the \<^verbatim>\<open>switch\<close>), and the result of the branch: the error that
  \<open>Start\<close> returns from inside it, or the resolved address.
\<close>

definition unrecognized :: "string \<Rightarrow> error" where
  "unrecognized line =
     ''Unrecognized remote plugin message: '' @ line @ [CHR 0x0A, CHR 0x0A] @
     ''This usually means that the plugin is either invalid or simply'' @ [CHR 0x0A] @
     ''needs to be recompiled to support the latest protocol.''"

definition handshake :: "(string \<Rightarrow> error + string) \<Rightarrow> string \<Rightarrow> error option \<times> (error + Addr)" where
  "handshake ResolveTCP line0 =
     (let line = TrimSpace line0;
          parts = SplitN line (CHR ''|'') 2
      in if length parts < 2 then (None, Inl (unrecognized line))
         else if parts ! 0 = ''tcp'' then
           (case ResolveTCP (parts ! 1) of
              Inl err \<Rightarrow> (Some err, Inl err)
            | Inr a \<Rightarrow> (None, Inr (TCPAddr a)))
         else if parts ! 0 = ''unix'' then (None, Inr (UnixAddr (parts ! 1)))
         else (Some (''Unknown address type: '' @ parts ! 0),
               Inl (''Unknown address type: '' @ parts ! 0)))"

text \<open>
  What the environment decides in a call of \<open>Start\<close>: the process environment, the
  results of the two pipe calls and of \<^verbatim>\<open>cmd.Start\<close> (the process identifier of the child),
  which branch of the \<^verbatim>\<open>select\<close> is taken (the timer, the cancelled context, or a line
  received from the scanner), and the TCP resolver.
\<close>

datatype start_wait = Timeout | ProcessDone | FirstLine string

record start_env =
  os_Environ :: "string list"
  StdoutPipe_result :: "error option"
  StderrPipe_result :: "error option"
  cmd_Start_result :: "error + nat"
  wait :: start_wait
  ResolveTCPAddr :: "string \<Rightarrow> error + string"

definition Start_select :: "start_env \<Rightarrow> error option \<times> (error + Addr)" where
  "Start_select env =
     (case wait env of
        Timeout \<Rightarrow> (None, Inl ''timeout while waiting for plugin to start'')
      | ProcessDone \<Rightarrow> (None, Inl ''plugin exited before we could connect'')
      | FirstLine line \<Rightarrow> handshake (ResolveTCPAddr env) line)"

text \<open>
  The deferred function of \<open>Start\<close>: it kills the child when the variable \<^verbatim>\<open>err\<close> is
  not \<^verbatim>\<open>nil\<close> (no panic arises in the model, so \<^verbatim>\<open>recover()\<close> is \<^verbatim>\<open>nil\<close>).
\<close>

definition Start_deferred :: "error option \<Rightarrow> nat \<Rightarrow> event list" where
  "Start_deferred err pid = (if err \<noteq> None then [ProcessKill pid] else [])"

text \<open>The client once the child and the three goroutines have been started.\<close>

definition spawned :: "Client \<Rightarrow> nat \<Rightarrow> Client" where
  "spawned c pid =
     c\<lparr>proc := Some pid, doneCtx := Some False, clientWg := clientWg c + 3,
       stderrWg := stderrWg c + 1\<rparr>"

text \<open>
  \<open>Start\<close> returns the client as it leaves it, the calls it made, and its result. After
  \<^verbatim>\<open>cmd.Start()\<close> has succeeded the variable \<^verbatim>\<open>err\<close> is \<^verbatim>\<open>nil\<close>; the results of
  \<open>Start\<close> are not named, so a \<^verbatim>\<open>return nil, errors.New(...)\<close> does not assign it.
\<close>

definition Start :: "start_env \<Rightarrow> Client \<Rightarrow> Client \<times> event list \<times> (error + Addr)" where
  "Start env c =
     (case addr c of
        Some a \<Rightarrow> (c, [], Inr a)
      | None \<Rightarrow>
          (let c1 = c\<lparr>cmd_Env := cmd_Env c @ os_Environ env\<rparr> in
           case StdoutPipe_result env of
             Some err \<Rightarrow> (c1, [], Inl err)
           | None \<Rightarrow>
               (case StderrPipe_result env of
                  Some err \<Rightarrow> (c1, [], Inl err)
                | None \<Rightarrow>
                    (case cmd_Start_result env of
                       Inl err \<Rightarrow> (c1, [], Inl err)
                     | Inr pid \<Rightarrow>
                         (let c2 = spawned c1 pid;
                              started = [ProcessStart pid, Go ''logStderr'', Go ''reaper'',
                                         Go ''scanner'']
                          in case Start_select env of
                               (err, Inl e) \<Rightarrow> (c2, started @ Start_deferred err pid, Inl e)
                             | (err, Inr a) \<Rightarrow>
                                 (c2\<lparr>addr := Some a\<rparr>, started @ Start_deferred err pid,
                                  Inr a))))))"

subsection \<open>\<^verbatim>\<open>Client.Exited\<close>\<close>

definition Exited :: "Client \<Rightarrow> bool" where
  "Exited c = exited c"

subsection \<open>The goroutines of \<open>Start\<close> and \<^verbatim>\<open>Client.Kill\<close>, step by step\<close>

text \<open>
  \<open>Kill\<close> waits for the goroutines that \<open>Start\<close> launched, so what holds when it returns
  depends on how they interleave. The supervisor after \<^verbatim>\<open>cmd.Start()\<close> is a transition
  system: the client's fields, whether the child process is alive, whether \<open>linesCh\<close> is
  closed, and one program counter for each goroutine and for the caller's thread.

  \<^item> \<^verbatim>\<open>logStderr\<close>: reads until \<^verbatim>\<open>ReadLine\<close> fails, then, deferred, \<^verbatim>\<open>stderrWg.Done()\<close>
    and \<^verbatim>\<open>clientWg.Done()\<close>.
  \<^item> the reaper: \<^verbatim>\<open>stderrWg.Wait()\<close>, \<^verbatim>\<open>cmd.Wait()\<close>, \<^verbatim>\<open>c.exited = true\<close> under the lock,
    then, deferred, \<^verbatim>\<open>clientWg.Done()\<close> and \<^verbatim>\<open>ctxCancel()\<close>.
  \<^item> the scanner: \<^verbatim>\<open>sc.Scan()\<close>, then a send on the unbuffered \<open>linesCh\<close>, again and
    again; at the end of the output, deferred, \<^verbatim>\<open>close(linesCh)\<close> and \<^verbatim>\<open>clientWg.Done()\<close>.
  \<^item> the caller: the \<^verbatim>\<open>select\<close> of \<open>Start\<close>, then any number of calls of \<open>Kill\<close>, each
    in the steps of its source; \<open>kills\<close> counts the calls of \<open>Kill\<close> that have returned.

  \<open>signals\<close> counts the kill signals sent to the child (\<^verbatim>\<open>Process.Kill()\<close>). A section
  under the lock \<open>c.l\<close> is one step. \<open>Start\<close> holds the lock until it returns, so the
  reaper cannot enter its locked section while the caller is in the \<^verbatim>\<open>select\<close> of \<open>Start\<close>.
\<close>

datatype logger_pc = L_read | L_stderr_done | L_client_done | L_end

datatype reaper_pc =
  R_wait_stderr | R_wait_cmd | R_set_exited | R_client_done | R_cancel | R_end

datatype scanner_pc = S_scan | S_send string | S_close | S_client_done | S_end

datatype main_pc =
  M_select | M_idle | K_graceful | K_wait | K_force | K_mark | K_join | K_clear

record supervisor =
  client :: Client
  child_alive :: bool
  linesCh_closed :: bool
  logger :: logger_pc
  reaper :: reaper_pc
  scanner :: scanner_pc
  main :: main_pc
  kills :: nat
  signals :: nat

definition started :: "Client \<Rightarrow> nat \<Rightarrow> supervisor" where
  "started c pid =
     \<lparr>client = spawned c pid, child_alive = True, linesCh_closed = False, logger = L_read,
      reaper = R_wait_stderr, scanner = S_scan, main = M_select, kills = 0, signals = 0\<rparr>"

text \<open>
  One step of one thread, or of the child. A step that cannot be taken in the state
  (a thread that has ended, a wait whose condition does not hold, a receive with no
  sender) is \<open>None\<close>.

  \<^item> \<open>Child_exit\<close>: the child process terminates, by itself or after a kill signal.
  \<^item> \<open>Scanner_step l\<close>: at \<^verbatim>\<open>sc.Scan()\<close>, \<open>l\<close> is the line scanned, or \<open>None\<close> at the end
    of the child's output.
  \<^item> \<open>Select_timeout\<close>, \<open>Select_done\<close>, \<open>Select_line\<close>: the three branches of the
    \<^verbatim>\<open>select\<close> of \<open>Start\<close>; a receive from the closed \<open>linesCh\<close> yields the empty line.
  \<^item> \<open>Kill_call\<close>: \<open>Kill\<close> reads \<open>proc\<close> and \<open>addr\<close> under the lock and returns at once
    when \<open>proc\<close> is \<^verbatim>\<open>nil\<close>.
  \<^item> \<open>Kill_close p q\<close>: \<^verbatim>\<open>c.Protocol()\<close> returned no error (\<open>p\<close>) and \<^verbatim>\<open>proto.Close()\<close>
    returned no error (\<open>q\<close>).
  \<^item> \<open>Kill_wait_done\<close>, \<open>Kill_wait_timeout\<close>: the \<^verbatim>\<open>select\<close> of the graceful exit.
  \<^item> \<open>Kill_step\<close>: \<^verbatim>\<open>proc.Kill()\<close>, then \<^verbatim>\<open>c.procKilled = true\<close>, then the deferred
    \<^verbatim>\<open>c.clientWg.Wait()\<close> and \<^verbatim>\<open>c.proc = nil\<close>.
\<close>

datatype action =
    Child_exit
  | Logger_step
  | Reaper_step
  | Scanner_step "string option"
  | Select_timeout
  | Select_done
  | Select_line
  | Kill_call
  | Kill_close bool bool
  | Kill_wait_done
  | Kill_wait_timeout
  | Kill_step

definition received :: "(string \<Rightarrow> error + string) \<Rightarrow> string \<Rightarrow> supervisor \<Rightarrow> supervisor" where
  "received ResolveTCP line s =
     (case handshake ResolveTCP line of
        (err, Inl e) \<Rightarrow>
          s\<lparr>main := M_idle, signals := signals s + (if err \<noteq> None then 1 else 0)\<rparr>
      | (err, Inr a) \<Rightarrow> s\<lparr>main := M_idle, client := (client s)\<lparr>addr := Some a\<rparr>\<rparr>)"

fun step :: "(string \<Rightarrow> error + string) \<Rightarrow> action \<Rightarrow> supervisor \<Rightarrow> supervisor option" where
  "step r Child_exit s =
     (if child_alive s then Some (s\<lparr>child_alive := False\<rparr>) else None)"
| "step r Logger_step s =
     (case logger s of
        L_read \<Rightarrow> Some (s\<lparr>logger := L_stderr_done\<rparr>)
      | L_stderr_done \<Rightarrow>
          Some (s\<lparr>logger := L_client_done,
                  client := (client s)\<lparr>stderrWg := stderrWg (client s) - 1\<rparr>\<rparr>)
      | L_client_done \<Rightarrow>
          Some (s\<lparr>logger := L_end,
                  client := (client s)\<lparr>clientWg := clientWg (client s) - 1\<rparr>\<rparr>)
      | L_end \<Rightarrow> None)"
| "step r Reaper_step s =
     (case reaper s of
        R_wait_stderr \<Rightarrow>
          if stderrWg (client s) = 0 then Some (s\<lparr>reaper := R_wait_cmd\<rparr>) else None
      | R_wait_cmd \<Rightarrow> if child_alive s then None else Some (s\<lparr>reaper := R_set_exited\<rparr>)
      | R_set_exited \<Rightarrow>
          if main s = M_select then None
          else Some (s\<lparr>reaper := R_client_done, client := (client s)\<lparr>exited := True\<rparr>\<rparr>)
      | R_client_done \<Rightarrow>
          Some (s\<lparr>reaper := R_cancel,
                  client := (client s)\<lparr>clientWg := clientWg (client s) - 1\<rparr>\<rparr>)
      | R_cancel \<Rightarrow> Some (s\<lparr>reaper := R_end, client := (client s)\<lparr>doneCtx := Some True\<rparr>\<rparr>)
      | R_end \<Rightarrow> None)"
| "step r (Scanner_step l) s =
     (case scanner s of
        S_scan \<Rightarrow>
          (case l of
             Some t \<Rightarrow> Some (s\<lparr>scanner := S_send t\<rparr>)
           | None \<Rightarrow> Some (s\<lparr>scanner := S_close\<rparr>))
      | S_send t \<Rightarrow> None
      | S_close \<Rightarrow> Some (s\<lparr>scanner := S_client_done, linesCh_closed := True\<rparr>)
      | S_client_done \<Rightarrow>
          Some (s\<lparr>scanner := S_end,
                  client := (client s)\<lparr>clientWg := clientWg (client s) - 1\<rparr>\<rparr>)
      | S_end \<Rightarrow> None)"
| "step r Select_timeout s =
     (if main s = M_select then Some (s\<lparr>main := M_idle\<rparr>) else None)"
| "step r Select_done s =
     (if main s = M_select \<and> doneCtx (client s) = Some True then Some (s\<lparr>main := M_idle\<rparr>)
      else None)"
| "step r Select_line s =
     (if main s \<noteq> M_select then None
      else case scanner s of
             S_send t \<Rightarrow> Some (received r t (s\<lparr>scanner := S_scan\<rparr>))
           | _ \<Rightarrow> if linesCh_closed s then Some (received r [] s) else None)"
| "step r Kill_call s =
     (if main s \<noteq> M_idle then None
      else case proc (client s) of
             None \<Rightarrow> Some (s\<lparr>kills := Suc (kills s)\<rparr>)
           | Some pid \<Rightarrow>
               if addr (client s) \<noteq> None then Some (s\<lparr>main := K_graceful\<rparr>)
               else Some (s\<lparr>main := K_force\<rparr>))"
| "step r (Kill_close p q) s =
     (if main s \<noteq> K_graceful then None
      else Some (s\<lparr>main := (if p \<and> q then K_wait else K_force),
                   client := (client s)\<lparr>proto := (proto (client s) \<or> p)\<rparr>\<rparr>))"
| "step r Kill_wait_done s =
     (if main s = K_wait \<and> doneCtx (client s) = Some True then Some (s\<lparr>main := K_join\<rparr>)
      else None)"
| "step r Kill_wait_timeout s =
     (if main s = K_wait then Some (s\<lparr>main := K_force\<rparr>) else None)"
| "step r Kill_step s =
     (case main s of
        K_force \<Rightarrow> Some (s\<lparr>main := K_mark, signals := signals s + 1\<rparr>)
      | K_mark \<Rightarrow> Some (s\<lparr>main := K_join, client := (client s)\<lparr>procKilled := True\<rparr>\<rparr>)
      | K_join \<Rightarrow> if clientWg (client s) = 0 then Some (s\<lparr>main := K_clear\<rparr>) else None
      | K_clear \<Rightarrow>
          Some (s\<lparr>main := M_idle, kills := Suc (kills s),
                  client := (client s)\<lparr>proc := None\<rparr>\<rparr>)
      | _ \<Rightarrow> None)"

fun run :: "(string \<Rightarrow> error + string) \<Rightarrow> action list \<Rightarrow> supervisor \<Rightarrow> supervisor option" where
  "run r [] s = Some s"
| "run r (a # as) s = (case step r a s of None \<Rightarrow> None | Some s' \<Rightarrow> run r as s')"

text \<open>
  The invariant of the runs: the counter of \<open>clientWg\<close> is the number of goroutines that
  have not yet called \<^verbatim>\<open>clientWg.Done()\<close>, and likewise for \<open>stderrWg\<close>; the reaper passes
  \<^verbatim>\<open>cmd.Wait()\<close> only when the child is dead and calls \<^verbatim>\<open>clientWg.Done()\<close> only after it has
  set \<open>exited\<close>; \<open>proc\<close> is set until a call of \<open>Kill\<close> has returned.
\<close>

fun logger_holds :: "logger_pc \<Rightarrow> nat" where
  "logger_holds L_end = 0"
| "logger_holds pc = 1"

fun logger_holds_stderr :: "logger_pc \<Rightarrow> nat" where
  "logger_holds_stderr L_read = 1"
| "logger_holds_stderr L_stderr_done = 1"
| "logger_holds_stderr pc = 0"

fun reaper_holds :: "reaper_pc \<Rightarrow> nat" where
  "reaper_holds R_cancel = 0"
| "reaper_holds R_end = 0"
| "reaper_holds pc = 1"

fun scanner_holds :: "scanner_pc \<Rightarrow> nat" where
  "scanner_holds S_end = 0"
| "scanner_holds pc = 1"

fun reaper_waited :: "reaper_pc \<Rightarrow> bool" where
  "reaper_waited R_wait_stderr = False"
| "reaper_waited R_wait_cmd = False"
| "reaper_waited pc = True"

fun reaper_has_set :: "reaper_pc \<Rightarrow> bool" where
  "reaper_has_set R_wait_stderr = False"
| "reaper_has_set R_wait_cmd = False"
| "reaper_has_set R_set_exited = False"
| "reaper_has_set pc = True"

definition supervisor_inv :: "supervisor \<Rightarrow> bool" where
  "supervisor_inv s \<longleftrightarrow>
     clientWg (client s) =
       logger_holds (logger s) + reaper_holds (reaper s) + scanner_holds (scanner s) \<and>
     stderrWg (client s) = logger_holds_stderr (logger s) \<and>
     (reaper_waited (reaper s) \<longrightarrow> \<not> child_alive s) \<and>
     (reaper_has_set (reaper s) \<longrightarrow> exited (client s)) \<and>
     (main s = K_clear \<longrightarrow> clientWg (client s) = 0) \<and>
     (kills s = 0 \<longrightarrow> proc (client s) \<noteq> None) \<and>
     (0 < kills s \<longrightarrow>
        exited (client s) \<and> proc (client s) = None \<and> \<not> child_alive s \<and> main s = M_idle)"

section \<open>Properties of the broker's identifier counter\<close>

lemma nextId_NextId_calls: "nextId (NextId_calls n m) = nextId m + of_nat n"
  by (induction n) (simp_all add: NextId_def)

lemma NextId_nth_eq: "0 < n \<Longrightarrow> NextId_nth n m = nextId m + of_nat n"
  by (cases n) (simp_all add: NextId_nth_def NextId_def nextId_NextId_calls)

lemma NextId_nth_new: "0 < n \<Longrightarrow> NextId_nth n newMuxBroker = of_nat n"
  by (simp add: NextId_nth_eq newMuxBroker_def)

text \<open>
  C4 (as stated, refuted). The claim says that any two distinct calls of \<open>NextId\<close> in one
  session return different identifiers. The counter is a \<^verbatim>\<open>uint32\<close>: call number
  \<open>2^32 + 1\<close> returns 1 again, the value of the first call.
\<close>

theorem NextId_reuse_counterexample:
  "(4294967297::nat) \<noteq> 1 \<and> NextId_nth 4294967297 newMuxBroker = NextId_nth 1 newMuxBroker"
proof -
  have "NextId_nth 4294967297 newMuxBroker = (of_nat 4294967297 :: u32)"
    by (rule NextId_nth_new) simp
  moreover have "NextId_nth 1 newMuxBroker = (of_nat 1 :: u32)"
    by (rule NextId_nth_new) simp
  moreover have "(of_nat 4294967297 :: u32) = of_nat 1"
    by simp
  ultimately show ?thesis by simp
qed

text \<open>
  C4 (amended). In a fresh broker the counter starts at 0; the \<open>n\<close>-th call of \<open>NextId\<close>
  returns \<open>n mod 2^32\<close>, which is \<open>n\<close> itself for \<open>n < 2^32\<close> (the first call returns 1),
  and any two distinct calls among the first \<open>2^32\<close> calls return different identifiers.
\<close>

theorem NextId_unique_below_wrap:
  "(0 < n \<longrightarrow> unat (NextId_nth n newMuxBroker) = n mod 2 ^ 32) \<and>
   (0 < n \<and> n < 2 ^ 32 \<longrightarrow> unat (NextId_nth n newMuxBroker) = n) \<and>
   (0 < i \<and> i < j \<and> j \<le> 2 ^ 32 \<longrightarrow>
      NextId_nth i newMuxBroker \<noteq> NextId_nth j newMuxBroker) \<and>
   nextId newMuxBroker = 0 \<and> NextId_nth 1 newMuxBroker = 1"
proof -
  have mod: "unat (NextId_nth n newMuxBroker) = n mod 2 ^ 32" if "0 < n" for n
    using that by (simp add: NextId_nth_new unat_of_nat)
  have neq: "NextId_nth i newMuxBroker \<noteq> NextId_nth j newMuxBroker"
    if "0 < i" "i < j" "j \<le> 2 ^ 32" for i j :: nat
  proof
    assume eq: "NextId_nth i newMuxBroker = NextId_nth j newMuxBroker"
    have i: "unat (NextId_nth i newMuxBroker) = i"
      using that mod [of i] by simp
    have j: "unat (NextId_nth j newMuxBroker) = j mod 2 ^ 32"
      using that mod [of j] by simp
    show False
    proof (cases "j = 2 ^ 32")
      case True
      with i j eq that show False by simp
    next
      case False
      with that have "j mod 2 ^ 32 = j" by simp
      with i j eq that show False by simp
    qed
  qed
  have first: "NextId_nth 1 newMuxBroker = 1"
    using NextId_nth_new [of 1] by simp
  have start: "nextId newMuxBroker = 0"
    by (simp add: newMuxBroker_def)
  from mod neq first start show ?thesis
    by simp
qed

theorem NextId_unique_below_wrap_witness:
  "unat (NextId_nth 3 newMuxBroker) = 3 \<and>
   NextId_nth 1 newMuxBroker \<noteq> NextId_nth 4294967296 newMuxBroker \<and>
   unat (NextId_nth 4294967299 newMuxBroker) = 3"
proof -
  have "unat (NextId_nth 3 newMuxBroker) = 3"
    using NextId_unique_below_wrap [of 3 1 4294967296] by simp
  moreover have "NextId_nth 1 newMuxBroker \<noteq> NextId_nth 4294967296 newMuxBroker"
  proof -
    have "(0::nat) < 1 \<and> (1::nat) < 4294967296 \<and> (4294967296::nat) \<le> 2 ^ 32"
      by simp
    with NextId_unique_below_wrap [of 3 1 4294967296] show ?thesis
      by blast
  qed
  moreover have "unat (NextId_nth 4294967299 newMuxBroker) = 3"
    using NextId_unique_below_wrap [of 4294967299 1 2] by simp
  ultimately show ?thesis by simp
qed

section \<open>Properties of \<^verbatim>\<open>MuxBroker.Dial\<close>\<close>

lemma le_uint32_le_bytes:
  "le_uint32 (ucast v, ucast (drop_bit 8 v), ucast (drop_bit 16 v), ucast (drop_bit 24 v)) = v"
proof (rule bit_word_eqI)
  fix n assume n: "n < LENGTH(32)"
  then consider "n < 8" | "8 \<le> n" "n < 16" | "16 \<le> n" "n < 24" | "24 \<le> n" "n < 32"
    by fastforce
  then show "bit (le_uint32 (ucast v, ucast (drop_bit 8 v), ucast (drop_bit 16 v), ucast (drop_bit 24 v))) n = bit v n"
    by cases (auto simp: bit_simps)
qed

lemma le_bytes_le_uint32: "le_bytes (le_uint32 (b0, b1, b2, b3)) = [b0, b1, b2, b3]"
proof -
  have "ucast (le_uint32 (b0, b1, b2, b3)) = b0"
    by (rule bit_word_eqI) (auto simp: bit_simps dest: bit_imp_le_length)
  moreover have "ucast (drop_bit 8 (le_uint32 (b0, b1, b2, b3))) = b1"
    by (rule bit_word_eqI) (auto simp: bit_simps dest: bit_imp_le_length)
  moreover have "ucast (drop_bit 16 (le_uint32 (b0, b1, b2, b3))) = b2"
    by (rule bit_word_eqI) (auto simp: bit_simps dest: bit_imp_le_length)
  moreover have "ucast (drop_bit 24 (le_uint32 (b0, b1, b2, b3))) = b3"
    by (rule bit_word_eqI) (auto simp: bit_simps dest: bit_imp_le_length)
  ultimately show ?thesis
    by (simp only: le_bytes_def)
qed

lemma le_uint32_eq_iff: "le_uint32 (b0, b1, b2, b3) = v \<longleftrightarrow> le_bytes v = [b0, b1, b2, b3]"
proof
  assume "le_uint32 (b0, b1, b2, b3) = v"
  then show "le_bytes v = [b0, b1, b2, b3]"
    using le_bytes_le_uint32 by blast
next
  assume "le_bytes v = [b0, b1, b2, b3]"
  then have "b0 = ucast v" "b1 = ucast (drop_bit 8 v)" "b2 = ucast (drop_bit 16 v)"
    "b3 = ucast (drop_bit 24 v)"
    by (simp_all add: le_bytes_def)
  then show "le_uint32 (b0, b1, b2, b3) = v"
    using le_uint32_le_bytes by simp
qed

lemma Dial_success_iff:
  "snd (Dial env sid) = Inr s \<longleftrightarrow>
     OpenStream_result env = Inr s \<and> Write_result env = None \<and>
     (\<exists>b0 b1 b2 b3. ReadFull_result env = Inr (b0, b1, b2, b3) \<and> [b0, b1, b2, b3] = le_bytes sid)"
proof (cases "OpenStream_result env")
  case (Inl e)
  then show ?thesis by (simp add: Dial_def)
next
  case (Inr s')
  show ?thesis
  proof (cases "Write_result env")
    case (Some e)
    with Inr show ?thesis by (simp add: Dial_def)
  next
    case None
    show ?thesis
    proof (cases "ReadFull_result env")
      case (Inl e)
      with Inr None show ?thesis by (simp add: Dial_def)
    next
      case r: (Inr bs)
      obtain b0 b1 b2 b3 where bs: "bs = (b0, b1, b2, b3)"
        by (cases bs) auto
      have "le_uint32 (b0, b1, b2, b3) = sid \<longleftrightarrow> [b0, b1, b2, b3] = le_bytes sid"
        using le_uint32_eq_iff [of b0 b1 b2 b3 sid] by auto
      with Inr None r bs show ?thesis
        by (auto simp add: Dial_def Let_def simp del: le_uint32.simps)
    qed
  qed
qed

lemma Dial_failure_closes:
  "snd (Dial env sid) = Inl e \<Longrightarrow> open_streams (fst (Dial env sid)) = []"
  by (auto simp: Dial_def Let_def split: sum.splits option.splits if_splits)

lemma Dial_success_trace:
  "snd (Dial env sid) = Inr s \<Longrightarrow>
     fst (Dial env sid) = [OpenStream (Some s), StreamWrite s (le_bytes sid), StreamRead s]"
  by (auto simp: Dial_def Let_def split: sum.splits option.splits if_splits)

text \<open>
  C5. \<open>Dial sid\<close> opens a stream, writes \<open>sid\<close> as four little-endian bytes and reads
  a four-byte acknowledgement. It returns the stream exactly when every step succeeded and
  the acknowledgement is the little-endian encoding of \<open>sid\<close>, leaving the stream open.
  A failure of the open, of the write or of the read is returned as it is; a different
  acknowledgement gives the error \<^verbatim>\<open>bad ack: <got> (expected <want>)\<close>. After any failure
  no stream opened by the call is left open (when the open itself fails there is none).
\<close>

theorem Dial_checks_ack:
  "(snd (Dial env sid) = Inr s \<longleftrightarrow>
      OpenStream_result env = Inr s \<and> Write_result env = None \<and>
      (\<exists>b0 b1 b2 b3. ReadFull_result env = Inr (b0, b1, b2, b3) \<and>
         [b0, b1, b2, b3] = le_bytes sid)) \<and>
   (snd (Dial env sid) = Inr s \<longrightarrow>
      fst (Dial env sid) = [OpenStream (Some s), StreamWrite s (le_bytes sid), StreamRead s]) \<and>
   (OpenStream_result env = Inl e \<longrightarrow> Dial env sid = ([OpenStream None], Inl e)) \<and>
   (OpenStream_result env = Inr s \<and> Write_result env = Some e \<longrightarrow>
      Dial env sid =
        ([OpenStream (Some s), StreamWrite s (le_bytes sid), StreamClose s], Inl e)) \<and>
   (OpenStream_result env = Inr s \<and> Write_result env = None \<and> ReadFull_result env = Inl e \<longrightarrow>
      Dial env sid =
        ([OpenStream (Some s), StreamWrite s (le_bytes sid), StreamRead s, StreamClose s],
         Inl e)) \<and>
   (OpenStream_result env = Inr s \<and> Write_result env = None \<and> ReadFull_result env = Inr bs \<and>
    le_uint32 bs \<noteq> sid \<longrightarrow>
      Dial env sid =
        ([OpenStream (Some s), StreamWrite s (le_bytes sid), StreamRead s, StreamClose s],
         Inl (''bad ack: '' @ decimal (unat (le_uint32 bs)) @ '' (expected '' @
              decimal (unat sid) @ '')''))) \<and>
   (snd (Dial env sid) = Inl e \<longrightarrow> open_streams (fst (Dial env sid)) = [])"
proof -
  have ok: "snd (Dial env sid) = Inr s \<longleftrightarrow>
      OpenStream_result env = Inr s \<and> Write_result env = None \<and>
      (\<exists>b0 b1 b2 b3. ReadFull_result env = Inr (b0, b1, b2, b3) \<and>
         [b0, b1, b2, b3] = le_bytes sid)"
    by (rule Dial_success_iff)
  have tr: "snd (Dial env sid) = Inr s \<longrightarrow>
      fst (Dial env sid) = [OpenStream (Some s), StreamWrite s (le_bytes sid), StreamRead s]"
    using Dial_success_trace by blast
  have op: "OpenStream_result env = Inl e \<longrightarrow> Dial env sid = ([OpenStream None], Inl e)"
    by (simp add: Dial_def)
  have wr: "OpenStream_result env = Inr s \<and> Write_result env = Some e \<longrightarrow>
      Dial env sid =
        ([OpenStream (Some s), StreamWrite s (le_bytes sid), StreamClose s], Inl e)"
    by (simp add: Dial_def)
  have rd: "OpenStream_result env = Inr s \<and> Write_result env = None \<and>
      ReadFull_result env = Inl e \<longrightarrow>
      Dial env sid =
        ([OpenStream (Some s), StreamWrite s (le_bytes sid), StreamRead s, StreamClose s],
         Inl e)"
    by (simp add: Dial_def)
  have mm: "OpenStream_result env = Inr s \<and> Write_result env = None \<and>
      ReadFull_result env = Inr bs \<and> le_uint32 bs \<noteq> sid \<longrightarrow>
      Dial env sid =
        ([OpenStream (Some s), StreamWrite s (le_bytes sid), StreamRead s, StreamClose s],
         Inl (''bad ack: '' @ decimal (unat (le_uint32 bs)) @ '' (expected '' @
              decimal (unat sid) @ '')''))"
    by (simp add: Dial_def Let_def bad_ack_def)
  have cl: "snd (Dial env sid) = Inl e \<longrightarrow> open_streams (fst (Dial env sid)) = []"
    using Dial_failure_closes by blast
  from ok tr op wr rd mm cl show ?thesis
    by (intro conjI)
qed

theorem Dial_checks_ack_witness:
  "snd (Dial \<lparr>OpenStream_result = Inr 3, Write_result = None,
                ReadFull_result = Inr (2, 1, 0, 0)\<rparr> 258) = Inr 3 \<and>
   fst (Dial \<lparr>OpenStream_result = Inr 3, Write_result = None,
                ReadFull_result = Inr (2, 1, 0, 0)\<rparr> 258) =
     [OpenStream (Some 3), StreamWrite 3 [2, 1, 0, 0], StreamRead 3] \<and>
   Dial \<lparr>OpenStream_result = Inl ''session shutdown'', Write_result = None,
           ReadFull_result = Inr (2, 1, 0, 0)\<rparr> 258 =
     ([OpenStream None], Inl ''session shutdown'') \<and>
   Dial \<lparr>OpenStream_result = Inr 3, Write_result = Some ''broken pipe'',
           ReadFull_result = Inr (2, 1, 0, 0)\<rparr> 258 =
     ([OpenStream (Some 3), StreamWrite 3 [2, 1, 0, 0], StreamClose 3], Inl ''broken pipe'') \<and>
   Dial \<lparr>OpenStream_result = Inr 3, Write_result = None, ReadFull_result = Inl ''EOF''\<rparr> 258 =
     ([OpenStream (Some 3), StreamWrite 3 [2, 1, 0, 0], StreamRead 3, StreamClose 3],
      Inl ''EOF'') \<and>
   Dial \<lparr>OpenStream_result = Inr 3, Write_result = None,
           ReadFull_result = Inr (7, 0, 0, 0)\<rparr> 258 =
     ([OpenStream (Some 3), StreamWrite 3 [2, 1, 0, 0], StreamRead 3, StreamClose 3],
      Inl ''bad ack: 7 (expected 258)'') \<and>
   open_streams (fst (Dial \<lparr>OpenStream_result = Inr 3, Write_result = None,
                              ReadFull_result = Inr (7, 0, 0, 0)\<rparr> 258)) = []"
proof -
  let ?good = "\<lparr>OpenStream_result = Inr 3, Write_result = None,
                ReadFull_result = Inr (2, 1, 0, 0)\<rparr>"
  let ?noopen = "\<lparr>OpenStream_result = Inl ''session shutdown'', Write_result = None,
                  ReadFull_result = Inr (2, 1, 0, 0)\<rparr>"
  let ?nowrite = "\<lparr>OpenStream_result = Inr 3, Write_result = Some ''broken pipe'',
                   ReadFull_result = Inr (2, 1, 0, 0)\<rparr>"
  let ?noread = "\<lparr>OpenStream_result = Inr 3, Write_result = None,
                  ReadFull_result = Inl ''EOF''\<rparr>"
  let ?bad = "\<lparr>OpenStream_result = Inr 3, Write_result = None,
               ReadFull_result = Inr (7, 0, 0, 0)\<rparr>"
  have enc: "le_bytes 258 = [2, 1, 0, 0]"
    by (simp add: le_bytes_def)
  have good: "snd (Dial ?good 258) = Inr 3"
    using Dial_checks_ack [of ?good 258 3] by (simp add: enc)
  have trace: "fst (Dial ?good 258) = [OpenStream (Some 3), StreamWrite 3 [2, 1, 0, 0], StreamRead 3]"
    using Dial_checks_ack [of ?good 258 3] good by (simp add: enc)
  have noopen: "Dial ?noopen 258 = ([OpenStream None], Inl ''session shutdown'')"
    using Dial_checks_ack [of ?noopen 258 3 "''session shutdown''"] by simp
  have nowrite: "Dial ?nowrite 258 =
      ([OpenStream (Some 3), StreamWrite 3 [2, 1, 0, 0], StreamClose 3], Inl ''broken pipe'')"
    using Dial_checks_ack [of ?nowrite 258 3 "''broken pipe''"] by (simp add: enc)
  have noread: "Dial ?noread 258 =
      ([OpenStream (Some 3), StreamWrite 3 [2, 1, 0, 0], StreamRead 3, StreamClose 3],
       Inl ''EOF'')"
    using Dial_checks_ack [of ?noread 258 3 "''EOF''"] by (simp add: enc)
  have bad: "Dial ?bad 258 =
      ([OpenStream (Some 3), StreamWrite 3 [2, 1, 0, 0], StreamRead 3, StreamClose 3],
       Inl ''bad ack: 7 (expected 258)'')"
    using Dial_checks_ack [of ?bad 258 3 "''x''" "(7, 0, 0, 0)"]
    by (simp add: enc decimal.simps digit_def)
  have closed: "open_streams (fst (Dial ?bad 258)) = []"
    using Dial_checks_ack [of ?bad 258 3 "''bad ack: 7 (expected 258)''"] bad by simp
  from good trace noopen nowrite noread bad closed show ?thesis
    by (intro conjI)
qed

section \<open>Properties of \<^verbatim>\<open>MuxBroker.Accept\<close>\<close>

text \<open>
  C6. \<open>Accept sid\<close> waits on the pending entry of \<open>sid\<close>. When no stream is buffered in
  the entry and none is handed over before the timer of 5 seconds fires, the entry of
  \<open>sid\<close> is removed from \<open>streams\<close> and the call fails with
  \<^verbatim>\<open>timeout waiting for accept\<close>. When a stream is there in time (already buffered, or
  handed over before 5 seconds) and the acknowledgement is written, the four little-endian
  bytes of \<open>sid\<close> are written to that stream and the stream is returned.
\<close>

theorem Accept_timeout_or_ack:
  "((\<forall>p. streams m sid = Some p \<longrightarrow> ch p = None) \<and>
    (\<forall>t c. delivery env = Some (t, c) \<longrightarrow> 5 * Second \<le> t) \<longrightarrow>
      Accept env m sid =
        (m\<lparr>streams := (streams m)(sid := None)\<rparr>, [], Returns (Inl ''timeout waiting for accept''))) \<and>
   (streams m sid = Some p \<and> ch p = Some c \<and> \<not> doneCh_closed p \<and>
    ack_Write_result env = None \<longrightarrow>
      Accept env m sid =
        (m\<lparr>streams := (streams m)(sid \<mapsto> p\<lparr>ch := None, doneCh_closed := True\<rparr>)\<rparr>,
         [StreamWrite c (le_bytes sid)], Returns (Inr c))) \<and>
   (streams m sid = None \<and> delivery env = Some (t, c) \<and> t < 5 * Second \<and>
    ack_Write_result env = None \<longrightarrow>
      Accept env m sid =
        (m\<lparr>streams := (streams m)(sid \<mapsto> \<lparr>ch = None, doneCh_closed = True\<rparr>)\<rparr>,
         [StreamWrite c (le_bytes sid)], Returns (Inr c))) \<and>
   (streams m sid = Some p \<and> ch p = None \<and> \<not> doneCh_closed p \<and>
    delivery env = Some (t, c) \<and> t < 5 * Second \<and> ack_Write_result env = None \<longrightarrow>
      Accept env m sid =
        (m\<lparr>streams := (streams m)(sid \<mapsto> p\<lparr>ch := None, doneCh_closed := True\<rparr>)\<rparr>,
         [StreamWrite c (le_bytes sid)], Returns (Inr c))) \<and>
   (snd (snd (Accept env m sid)) = Returns (Inl ''timeout waiting for accept'') \<and>
    ack_Write_result env = None \<longrightarrow>
      streams (fst (Accept env m sid)) sid = None)"
proof -
  have timeout: "Accept env m sid =
      (m\<lparr>streams := (streams m)(sid := None)\<rparr>, [], Returns (Inl ''timeout waiting for accept''))"
    if "\<forall>p. streams m sid = Some p \<longrightarrow> ch p = None"
      and "\<forall>t c. delivery env = Some (t, c) \<longrightarrow> 5 * Second \<le> t"
  proof -
    have sel: "Accept_select env (fst (getStream m sid)) = None"
      using that
      by (cases "delivery env")
         (auto simp: Accept_select_def getStream_def Let_def split: option.splits)
    have "fst (Accept env m sid) = (snd (getStream m sid))\<lparr>streams := (streams (snd (getStream m sid)))(sid := None)\<rparr>"
      using sel by (simp add: Accept_def split_def Let_def)
    moreover have "(snd (getStream m sid))\<lparr>streams := (streams (snd (getStream m sid)))(sid := None)\<rparr> = m\<lparr>streams := (streams m)(sid := None)\<rparr>"
      by (auto simp: getStream_def Let_def split: option.splits)
    moreover have "snd (Accept env m sid) = ([], Returns (Inl ''timeout waiting for accept''))"
      using sel by (simp add: Accept_def split_def Let_def)
    ultimately show ?thesis
      by (metis prod.collapse)
  qed
  have buffered: "Accept env m sid =
        (m\<lparr>streams := (streams m)(sid \<mapsto> p\<lparr>ch := None, doneCh_closed := True\<rparr>)\<rparr>,
         [StreamWrite c (le_bytes sid)], Returns (Inr c))"
    if "streams m sid = Some p" "ch p = Some c" "\<not> doneCh_closed p" "ack_Write_result env = None"
    using that by (simp add: Accept_def getStream_def Accept_select_def)
  have arrives: "Accept env m sid =
        (m\<lparr>streams := (streams m)(sid \<mapsto> \<lparr>ch = None, doneCh_closed = True\<rparr>)\<rparr>,
         [StreamWrite c (le_bytes sid)], Returns (Inr c))"
    if "streams m sid = None" "delivery env = Some (t, c)" "t < 5 * Second"
       "ack_Write_result env = None"
    using that by (simp add: Accept_def getStream_def Accept_select_def Let_def)
  have handed: "Accept env m sid =
        (m\<lparr>streams := (streams m)(sid \<mapsto> p\<lparr>ch := None, doneCh_closed := True\<rparr>)\<rparr>,
         [StreamWrite c (le_bytes sid)], Returns (Inr c))"
    if "streams m sid = Some p" "ch p = None" "\<not> doneCh_closed p"
       "delivery env = Some (t, c)" "t < 5 * Second" "ack_Write_result env = None"
    using that by (simp add: Accept_def getStream_def Accept_select_def)
  have removed: "streams (fst (Accept env m sid)) sid = None"
    if "snd (snd (Accept env m sid)) = Returns (Inl ''timeout waiting for accept'')"
       "ack_Write_result env = None"
    using that
    by (auto simp: Accept_def split_def Let_def split: option.splits if_splits)
  from timeout buffered arrives handed removed show ?thesis
    by blast
qed

theorem Accept_timeout_or_ack_witness:
  "Accept \<lparr>delivery = Some (6000000000, 4), ack_Write_result = None\<rparr> newMuxBroker 7 =
     (newMuxBroker, [], Returns (Inl ''timeout waiting for accept'')) \<and>
   Accept \<lparr>delivery = Some (1000, 4), ack_Write_result = None\<rparr> newMuxBroker 7 =
     (newMuxBroker\<lparr>streams := [7 \<mapsto> \<lparr>ch = None, doneCh_closed = True\<rparr>]\<rparr>,
      [StreamWrite 4 [7, 0, 0, 0]], Returns (Inr 4)) \<and>
   Accept \<lparr>delivery = None, ack_Write_result = None\<rparr>
      (newMuxBroker\<lparr>streams := [7 \<mapsto> \<lparr>ch = Some 9, doneCh_closed = False\<rparr>]\<rparr>) 7 =
     (newMuxBroker\<lparr>streams := [7 \<mapsto> \<lparr>ch = None, doneCh_closed = True\<rparr>]\<rparr>,
      [StreamWrite 9 [7, 0, 0, 0]], Returns (Inr 9))"
proof -
  let ?late = "\<lparr>delivery = Some (6000000000, 4), ack_Write_result = None\<rparr>"
  let ?early = "\<lparr>delivery = Some (1000, 4), ack_Write_result = None\<rparr>"
  let ?never = "\<lparr>delivery = None, ack_Write_result = None\<rparr>"
  let ?p = "\<lparr>ch = Some 9, doneCh_closed = False\<rparr>"
  let ?m = "newMuxBroker\<lparr>streams := [7 \<mapsto> ?p]\<rparr>"
  have enc: "le_bytes 7 = [7, 0, 0, 0]"
    by (simp add: le_bytes_def)
  have late: "Accept ?late newMuxBroker 7 =
      (newMuxBroker, [], Returns (Inl ''timeout waiting for accept''))"
    using Accept_timeout_or_ack [where m = newMuxBroker and sid = 7 and env = "?late"]
    by (simp add: newMuxBroker_def Second_def)
  have early: "Accept ?early newMuxBroker 7 =
      (newMuxBroker\<lparr>streams := [7 \<mapsto> \<lparr>ch = None, doneCh_closed = True\<rparr>]\<rparr>,
       [StreamWrite 4 [7, 0, 0, 0]], Returns (Inr 4))"
    using Accept_timeout_or_ack
      [where m = newMuxBroker and sid = 7 and env = "?early" and t = 1000 and c = 4]
    by (simp add: newMuxBroker_def Second_def enc)
  have buffered: "Accept ?never ?m 7 =
      (newMuxBroker\<lparr>streams := [7 \<mapsto> \<lparr>ch = None, doneCh_closed = True\<rparr>]\<rparr>,
       [StreamWrite 9 [7, 0, 0, 0]], Returns (Inr 9))"
    using Accept_timeout_or_ack
      [where m = "?m" and sid = 7 and env = "?never" and p = "?p" and c = 9]
    by (simp add: newMuxBroker_def enc)
  from late early buffered show ?thesis
    by (intro conjI)
qed

section \<open>Properties of \<^verbatim>\<open>RPCClient.Close\<close>\<close>

text \<open>
  C1 (as stated, refuted). The claim says that every later close runs when an earlier one
  fails and that the error of \<^verbatim>\<open>Control.Quit\<close> is returned when there is one. When the
  close of the control channel fails, \<open>Close\<close> returns that error at once: neither stdio
  stream nor the broker is closed, and the error of \<^verbatim>\<open>Control.Quit\<close> is dropped.
\<close>

theorem Close_stops_counterexample:
  "RPCClient_Close \<lparr>Quit_result = Some ''quit failed'',
      control_Close_result = Some ''close failed'', stdout_Close_result = None,
      stderr_Close_result = None, broker_Close_result = None\<rparr> =
     ([ControlCall ''Control.Quit'', ControlClose], Some ''close failed'') \<and>
   StdoutClose \<notin> set (fst (RPCClient_Close \<lparr>Quit_result = Some ''quit failed'',
      control_Close_result = Some ''close failed'', stdout_Close_result = None,
      stderr_Close_result = None, broker_Close_result = None\<rparr>)) \<and>
   BrokerClose \<notin> set (fst (RPCClient_Close \<lparr>Quit_result = Some ''quit failed'',
      control_Close_result = Some ''close failed'', stdout_Close_result = None,
      stderr_Close_result = None, broker_Close_result = None\<rparr>)) \<and>
   snd (RPCClient_Close \<lparr>Quit_result = Some ''quit failed'',
      control_Close_result = Some ''close failed'', stdout_Close_result = None,
      stderr_Close_result = None, broker_Close_result = None\<rparr>) \<noteq> Some ''quit failed''"
  by (simp add: RPCClient_Close_def)

text \<open>
  C1 (amended). \<open>Close\<close> first calls \<^verbatim>\<open>Control.Quit\<close> and keeps its error, then closes
  the control channel, the stdout stream, the stderr stream and the broker in that order,
  whatever \<^verbatim>\<open>Control.Quit\<close> returned, and stops at the first close that fails, returning
  that close's error. When all four closes succeed it returns the error kept from
  \<^verbatim>\<open>Control.Quit\<close> (none when the call succeeded).
\<close>

theorem Close_stops_at_first_failure:
  "take 2 (fst (RPCClient_Close env)) = [ControlCall ''Control.Quit'', ControlClose] \<and>
   (control_Close_result env = Some e \<longrightarrow>
      RPCClient_Close env = ([ControlCall ''Control.Quit'', ControlClose], Some e)) \<and>
   (control_Close_result env = None \<and> stdout_Close_result env = Some e \<longrightarrow>
      RPCClient_Close env = ([ControlCall ''Control.Quit'', ControlClose, StdoutClose], Some e)) \<and>
   (control_Close_result env = None \<and> stdout_Close_result env = None \<and>
    stderr_Close_result env = Some e \<longrightarrow>
      RPCClient_Close env =
        ([ControlCall ''Control.Quit'', ControlClose, StdoutClose, StderrClose], Some e)) \<and>
   (control_Close_result env = None \<and> stdout_Close_result env = None \<and>
    stderr_Close_result env = None \<and> broker_Close_result env = Some e \<longrightarrow>
      RPCClient_Close env =
        ([ControlCall ''Control.Quit'', ControlClose, StdoutClose, StderrClose, BrokerClose],
         Some e)) \<and>
   (control_Close_result env = None \<and> stdout_Close_result env = None \<and>
    stderr_Close_result env = None \<and> broker_Close_result env = None \<longrightarrow>
      RPCClient_Close env =
        ([ControlCall ''Control.Quit'', ControlClose, StdoutClose, StderrClose, BrokerClose],
         Quit_result env))"
proof -
  have start: "take 2 (fst (RPCClient_Close env)) = [ControlCall ''Control.Quit'', ControlClose]"
    by (simp add: RPCClient_Close_def split: option.splits)
  have rest: "RPCClient_Close env =
      (case control_Close_result env of
         Some e \<Rightarrow> ([ControlCall ''Control.Quit'', ControlClose], Some e)
       | None \<Rightarrow>
          (case stdout_Close_result env of
             Some e \<Rightarrow> ([ControlCall ''Control.Quit'', ControlClose, StdoutClose], Some e)
           | None \<Rightarrow>
              (case stderr_Close_result env of
                 Some e \<Rightarrow>
                   ([ControlCall ''Control.Quit'', ControlClose, StdoutClose, StderrClose], Some e)
               | None \<Rightarrow>
                   ([ControlCall ''Control.Quit'', ControlClose, StdoutClose, StderrClose,
                     BrokerClose],
                    case broker_Close_result env of Some e \<Rightarrow> Some e | None \<Rightarrow> Quit_result env))))"
    by (simp add: RPCClient_Close_def split: option.splits)
  show ?thesis
    using start by (simp add: rest)
qed

theorem Close_stops_at_first_failure_witness:
  "RPCClient_Close \<lparr>Quit_result = Some ''quit failed'', control_Close_result = None,
      stdout_Close_result = None, stderr_Close_result = None, broker_Close_result = None\<rparr> =
     ([ControlCall ''Control.Quit'', ControlClose, StdoutClose, StderrClose, BrokerClose],
      Some ''quit failed'') \<and>
   RPCClient_Close \<lparr>Quit_result = Some ''quit failed'', control_Close_result = None,
      stdout_Close_result = Some ''closed pipe'', stderr_Close_result = None,
      broker_Close_result = None\<rparr> =
     ([ControlCall ''Control.Quit'', ControlClose, StdoutClose], Some ''closed pipe'')"
proof -
  let ?quit = "\<lparr>Quit_result = Some ''quit failed'', control_Close_result = None,
      stdout_Close_result = None, stderr_Close_result = None, broker_Close_result = None\<rparr>"
  let ?out = "\<lparr>Quit_result = Some ''quit failed'', control_Close_result = None,
      stdout_Close_result = Some ''closed pipe'', stderr_Close_result = None,
      broker_Close_result = None\<rparr>"
  have a: "RPCClient_Close ?quit =
     ([ControlCall ''Control.Quit'', ControlClose, StdoutClose, StderrClose, BrokerClose],
      Some ''quit failed'')"
    using Close_stops_at_first_failure [of ?quit] by simp
  have b: "RPCClient_Close ?out =
     ([ControlCall ''Control.Quit'', ControlClose, StdoutClose], Some ''closed pipe'')"
    using Close_stops_at_first_failure [of ?out "''closed pipe''"] by simp
  from a b show ?thesis
    by (intro conjI)
qed

section \<open>Properties of \<open>Dispense\<close>\<close>

text \<open>
  C7. For a name that is not in the plugin set, \<open>Dispense\<close> fails with the error
  \<^verbatim>\<open>unknown plugin type: <name>\<close>. On the client nothing has been done by then: no call on
  the control channel, no dial. On the server nothing has been done either: the plugin's
  constructor has not run and the broker's counter is unchanged. For a name that is in the
  set, the first thing the client does is the call on the control channel, and the first
  thing the server does is the plugin's constructor.
\<close>

theorem Dispense_unknown_plugin:
  "(ps name = None \<longrightarrow>
      RPCClient_Dispense env ps name = ([], Inl (''unknown plugin type: '' @ name))) \<and>
   (plugins d name = None \<longrightarrow>
      dispenseServer_Dispense plugin_Server d name =
        (d, [], Inl (''unknown plugin type: '' @ name))) \<and>
   (ps name = Some p \<longrightarrow>
      take 1 (fst (RPCClient_Dispense env ps name)) = [ControlCall ''Dispenser.Dispense'']) \<and>
   (plugins d name = Some p' \<longrightarrow>
      take 1 (fst (snd (dispenseServer_Dispense plugin_Server d name))) = [PluginServer name])"
proof -
  have client: "RPCClient_Dispense env ps name = ([], Inl (''unknown plugin type: '' @ name))"
    if "ps name = None"
    using that by (simp add: RPCClient_Dispense_def unknown_plugin_def)
  have server: "dispenseServer_Dispense plugin_Server d name =
      (d, [], Inl (''unknown plugin type: '' @ name))"
    if "plugins d name = None"
    using that by (simp add: dispenseServer_Dispense_def unknown_plugin_def)
  have client_known:
    "take 1 (fst (RPCClient_Dispense env ps name)) = [ControlCall ''Dispenser.Dispense'']"
    if "ps name = Some p"
    using that by (simp add: RPCClient_Dispense_def split: sum.splits prod.splits)
  have server_known:
    "take 1 (fst (snd (dispenseServer_Dispense plugin_Server d name))) = [PluginServer name]"
    if "plugins d name = Some p'"
    using that by (simp add: dispenseServer_Dispense_def split: sum.splits prod.splits)
  from client server client_known server_known show ?thesis
    by blast
qed

theorem Dispense_unknown_plugin_witness:
  "RPCClient_Dispense
      \<lparr>Dispense_reply = Inr 1,
       dial = \<lparr>OpenStream_result = Inr 3, Write_result = None,
               ReadFull_result = Inr (1, 0, 0, 0)\<rparr>,
       plugin_Client = (\<lambda>p c. Inr (p + c))\<rparr>
      [''test'' \<mapsto> (0::nat)] ''greeter'' =
     ([], Inl ''unknown plugin type: greeter'' :: error + nat) \<and>
   dispenseServer_Dispense (\<lambda>p. Inr p :: error + nat)
      \<lparr>broker = newMuxBroker, plugins = [''test'' \<mapsto> (0::nat)]\<rparr> ''greeter'' =
     (\<lparr>broker = newMuxBroker, plugins = [''test'' \<mapsto> (0::nat)]\<rparr>, [],
      Inl ''unknown plugin type: greeter'') \<and>
   take 1 (fst (RPCClient_Dispense
      \<lparr>Dispense_reply = Inr 1,
       dial = \<lparr>OpenStream_result = Inr 3, Write_result = None,
               ReadFull_result = Inr (1, 0, 0, 0)\<rparr>,
       plugin_Client = (\<lambda>p c. Inr (p + c) :: error + nat)\<rparr>
      [''test'' \<mapsto> (0::nat)] ''test'')) = [ControlCall ''Dispenser.Dispense''] \<and>
   take 1 (fst (snd (dispenseServer_Dispense (\<lambda>p. Inr p :: error + nat)
      \<lparr>broker = newMuxBroker, plugins = [''test'' \<mapsto> (0::nat)]\<rparr> ''test''))) =
     [PluginServer ''test'']"
proof -
  let ?env = "\<lparr>Dispense_reply = Inr 1,
       dial = \<lparr>OpenStream_result = Inr 3, Write_result = None,
               ReadFull_result = Inr (1, 0, 0, 0)\<rparr>,
       plugin_Client = (\<lambda>p c. Inr (p + c) :: error + nat)\<rparr>"
  let ?ps = "[''test'' \<mapsto> (0::nat)]"
  let ?d = "\<lparr>broker = newMuxBroker, plugins = ?ps\<rparr>"
  let ?srv = "\<lambda>p. Inr p :: error + nat"
  have a: "RPCClient_Dispense ?env ?ps ''greeter'' = ([], Inl ''unknown plugin type: greeter'')"
    using Dispense_unknown_plugin
      [where ps = "?ps" and name = "''greeter''" and env = "?env" and d = "?d"
         and plugin_Server = "?srv"]
    by simp
  have b: "dispenseServer_Dispense ?srv ?d ''greeter'' =
      (?d, [], Inl ''unknown plugin type: greeter'')"
    using Dispense_unknown_plugin
      [where ps = "?ps" and name = "''greeter''" and env = "?env" and d = "?d"
         and plugin_Server = "?srv"]
    by simp
  have c: "take 1 (fst (RPCClient_Dispense ?env ?ps ''test'')) =
      [ControlCall ''Dispenser.Dispense'']"
    using Dispense_unknown_plugin
      [where ps = "?ps" and name = "''test''" and env = "?env" and d = "?d"
         and plugin_Server = "?srv" and p = 0 and p' = 0]
    by simp
  have d: "take 1 (fst (snd (dispenseServer_Dispense ?srv ?d ''test''))) =
      [PluginServer ''test'']"
    using Dispense_unknown_plugin
      [where ps = "?ps" and name = "''test''" and env = "?env" and d = "?d"
         and plugin_Server = "?srv" and p = 0 and p' = 0]
    by simp
  from a b c d show ?thesis
    by (intro conjI)
qed

section \<open>Properties of \<^verbatim>\<open>controlServer.Quit\<close>\<close>

lemma Quit_calls_nil:
  "DoneCh s = None \<Longrightarrow> Quit_calls n s = Returns (s, replicate n ((), None))"
  by (induction n) (simp_all add: controlServer_Quit_def RPCServer_done_def)

text \<open>
  C10. In a server whose done channel, if it has one, is still open (as in the server that
  \<^verbatim>\<open>Serve\<close> builds), any number of calls of \<^verbatim>\<open>Control.Quit\<close> all return, none panics, and
  each returns the empty response and no error. The first call closes the channel and sets
  \<open>DoneCh\<close> to \<^verbatim>\<open>nil\<close>; every later call finds \<^verbatim>\<open>nil\<close> and closes nothing, so the
  channel is closed at most once.
\<close>

theorem Quit_closes_once:
  "(\<forall>c. DoneCh s = Some c \<longrightarrow> c \<notin> set (closes s)) \<longrightarrow>
     Quit_calls n s =
       Returns
         (if n = 0 then s
          else s\<lparr>closes := closes s @ (case DoneCh s of None \<Rightarrow> [] | Some c \<Rightarrow> [c]),
                 DoneCh := None\<rparr>,
          replicate n ((), None))"
proof
  assume open_ch: "\<forall>c. DoneCh s = Some c \<longrightarrow> c \<notin> set (closes s)"
  show "Quit_calls n s =
       Returns
         (if n = 0 then s
          else s\<lparr>closes := closes s @ (case DoneCh s of None \<Rightarrow> [] | Some c \<Rightarrow> [c]),
                 DoneCh := None\<rparr>,
          replicate n ((), None))"
  proof (cases n)
    case 0
    then show ?thesis by simp
  next
    case (Suc k)
    show ?thesis
    proof (cases "DoneCh s")
      case None
      then have "Quit_calls n s = Returns (s, replicate n ((), None))"
        by (rule Quit_calls_nil)
      with None Suc show ?thesis by simp
    next
      case (Some c)
      let ?s1 = "s\<lparr>closes := closes s @ [c], DoneCh := None\<rparr>"
      from Some open_ch have "c \<notin> set (closes s)" by simp
      with Some have first: "controlServer_Quit s = Returns (?s1, (), None)"
        by (simp add: controlServer_Quit_def RPCServer_done_def)
      have "Quit_calls k ?s1 = Returns (?s1, replicate k ((), None))"
        by (rule Quit_calls_nil) simp
      with first Some Suc show ?thesis by simp
    qed
  qed
qed

theorem Quit_closes_once_witness:
  "Quit_calls 1 Serve_server = Returns (\<lparr>DoneCh = None, closes = [0]\<rparr>, [((), None)]) \<and>
   Quit_calls 3 Serve_server =
     Returns (\<lparr>DoneCh = None, closes = [0]\<rparr>, [((), None), ((), None), ((), None)])"
proof -
  have a: "Quit_calls 1 Serve_server = Returns (\<lparr>DoneCh = None, closes = [0]\<rparr>, [((), None)])"
    using Quit_closes_once [of Serve_server 1] by (simp add: Serve_server_def)
  have b: "Quit_calls 3 Serve_server =
      Returns (\<lparr>DoneCh = None, closes = [0]\<rparr>, [((), None), ((), None), ((), None)])"
    using Quit_closes_once [of Serve_server 3]
    by (simp add: Serve_server_def eval_nat_numeral)
  from a b show ?thesis
    by (intro conjI)
qed

section \<open>Properties of the handshake\<close>

lemma bar_not_space: "CHR ''|'' \<notin> set ascii_space"
  by (simp add: ascii_space_def)

lemma utf8_space_no_bar: "q \<in> set utf8_space \<Longrightarrow> CHR ''|'' \<notin> set q"
  by (auto simp: utf8_space_def)

lemma utf8_space_length: "q \<in> set utf8_space \<Longrightarrow> length q = 2 \<or> length q = 3"
  by (auto simp: utf8_space_def)

lemma TrimRight_rev_bar: "TrimRight_rev (s @ CHR ''|'' # p) = TrimRight_rev s @ CHR ''|'' # p"
proof (induction s rule: TrimRight_rev.induct)
  case 1
  have "rev (take 2 (CHR ''|'' # p)) \<notin> set utf8_space"
    using utf8_space_no_bar [of "rev (take 2 (CHR ''|'' # p))"] by auto
  moreover have "rev (take 3 (CHR ''|'' # p)) \<notin> set utf8_space"
    using utf8_space_no_bar [of "rev (take 3 (CHR ''|'' # p))"] by auto
  ultimately show ?case
    using bar_not_space by simp
next
  case (2 c cs)
  show ?case
  proof (cases cs)
    case Nil
    have a: "rev (take 2 (c # CHR ''|'' # p)) \<notin> set utf8_space"
      using utf8_space_no_bar [of "rev (take 2 (c # CHR ''|'' # p))"] by auto
    have b: "rev (take 3 (c # CHR ''|'' # p)) \<notin> set utf8_space"
      using utf8_space_no_bar [of "rev (take 3 (c # CHR ''|'' # p))"] by auto
    have c: "rev (take 2 [c]) \<notin> set utf8_space" "rev (take 3 [c]) \<notin> set utf8_space"
      using utf8_space_length [of "[c]"] by auto
    from Nil a b c 2 show ?thesis
      by simp
  next
    case (Cons x xs)
    note outer = Cons
    show ?thesis
    proof (cases xs)
      case Nil
      have b: "rev (take 3 (c # x # CHR ''|'' # p)) \<notin> set utf8_space"
        using utf8_space_no_bar [of "rev (take 3 (c # x # CHR ''|'' # p))"] by auto
      from Nil outer b 2 show ?thesis
        by (cases "[x, c] \<in> set utf8_space") simp_all
    next
      case (Cons y ys)
      with outer 2 show ?thesis
        by simp
    qed
  qed
qed

lemma TrimSpace_prefix:
  "TrimSpace (''1|1|'' @ r) = ''1|1|'' @ rev (TrimRight_rev (rev r))"
proof -
  have "TrimLeft (''1|1|'' @ r) = ''1|1|'' @ r"
    by (simp add: ascii_space_def utf8_space_def)
  moreover have "TrimRight_rev (rev (''1|1|'' @ r)) = TrimRight_rev (rev r) @ ''|1|1''"
    using TrimRight_rev_bar [of "rev r" "''1|1''"] by simp
  ultimately show ?thesis
    by (simp add: TrimSpace_def)
qed

lemma ScanLine_prefix: "\<exists>r. ScanLine (''1|1|'' @ x) = ''1|1|'' @ r"
proof -
  let ?l = "takeWhile (\<lambda>c. c \<noteq> CHR 0x0A) x"
  have l: "takeWhile (\<lambda>c. c \<noteq> CHR 0x0A) (''1|1|'' @ x) = ''1|1|'' @ ?l"
    by simp
  show ?thesis
  proof (cases "?l = []")
    case True
    with l show ?thesis by (simp add: ScanLine_def)
  next
    case False
    then have "butlast (''1|1|'' @ ?l) = ''1|1|'' @ butlast ?l"
      by (simp add: butlast_append)
    with l False show ?thesis
      by (auto simp: ScanLine_def Let_def)
  qed
qed

lemma handshake_versioned:
  "handshake ResolveTCP (''1|1|'' @ r) =
     (Some ''Unknown address type: 1'', Inl ''Unknown address type: 1'')"
  unfolding handshake_def TrimSpace_prefix
  by (simp add: eval_nat_numeral Let_def)

lemma handshake_rejects_Serve_line:
  "handshake ResolveTCP (ScanLine (Serve_handshake network address)) =
     (Some ''Unknown address type: 1'', Inl ''Unknown address type: 1'')"
proof -
  have "Serve_handshake network address = ''1|1|'' @ (network @ ''|'' @ address @ [CHR 0x0A])"
    by (simp add: Serve_handshake_def CoreProtocolVersion_def decimal.simps digit_def)
  then obtain r where "ScanLine (Serve_handshake network address) = ''1|1|'' @ r"
    using ScanLine_prefix by metis
  then show ?thesis
    by (simp only: handshake_versioned)
qed

text \<open>
  C2 (the code at the line the server prints). \<^verbatim>\<open>Serve\<close> prints
  \<^verbatim>\<open>1|1|<network>|<address>\<close>. \<open>Start\<close> splits the trimmed line at its first \<^verbatim>\<open>|\<close> only
  and takes the piece before it, which is the version \<^verbatim>\<open>1\<close>, for the network: whatever the
  network and the address are, \<open>Start\<close> on a fresh client returns the error
  \<^verbatim>\<open>Unknown address type: 1\<close> (and kills the child), and no address.
\<close>

theorem Start_rejects_Serve_handshake:
  "Start \<lparr>os_Environ = ev, StdoutPipe_result = None, StderrPipe_result = None,
           cmd_Start_result = Inr pid,
           wait = FirstLine (ScanLine (Serve_handshake network address)),
           ResolveTCPAddr = r\<rparr> (NewClient e0) =
     (spawned (NewClient (e0 @ ev)) pid,
      [ProcessStart pid, Go ''logStderr'', Go ''reaper'', Go ''scanner'', ProcessKill pid],
      Inl ''Unknown address type: 1'')"
  by (simp add: Start_def Start_select_def handshake_rejects_Serve_line Start_deferred_def
      NewClient_def)

section \<open>Properties of \<^verbatim>\<open>Client.Start\<close>\<close>

text \<open>
  C3 (the code where \<open>Start\<close> fails after the child was started). When the timer fires,
  when the context is cancelled, or when the line has no \<^verbatim>\<open>|\<close> (also the empty line
  received from the closed \<open>linesCh\<close> when the child's output ends), \<open>Start\<close> returns its
  error from a \<^verbatim>\<open>return nil, ...\<close> that does not assign the variable \<^verbatim>\<open>err\<close> which the
  deferred function tests: the child (\<open>proc\<close> is set) is not killed. Only the errors
  assigned to \<^verbatim>\<open>err\<close> in the \<^verbatim>\<open>switch\<close> (unknown family, failed resolution) kill it.
\<close>

theorem Start_error_without_kill:
  "Start \<lparr>os_Environ = ev, StdoutPipe_result = None, StderrPipe_result = None,
           cmd_Start_result = Inr pid, wait = Timeout, ResolveTCPAddr = r\<rparr> (NewClient e0) =
     (spawned (NewClient (e0 @ ev)) pid,
      [ProcessStart pid, Go ''logStderr'', Go ''reaper'', Go ''scanner''],
      Inl ''timeout while waiting for plugin to start'') \<and>
   Start \<lparr>os_Environ = ev, StdoutPipe_result = None, StderrPipe_result = None,
           cmd_Start_result = Inr pid, wait = ProcessDone, ResolveTCPAddr = r\<rparr> (NewClient e0) =
     (spawned (NewClient (e0 @ ev)) pid,
      [ProcessStart pid, Go ''logStderr'', Go ''reaper'', Go ''scanner''],
      Inl ''plugin exited before we could connect'') \<and>
   Start \<lparr>os_Environ = ev, StdoutPipe_result = None, StderrPipe_result = None,
           cmd_Start_result = Inr pid, wait = FirstLine ''hello'', ResolveTCPAddr = r\<rparr>
     (NewClient e0) =
     (spawned (NewClient (e0 @ ev)) pid,
      [ProcessStart pid, Go ''logStderr'', Go ''reaper'', Go ''scanner''],
      Inl (unrecognized ''hello'')) \<and>
   Start \<lparr>os_Environ = ev, StdoutPipe_result = None, StderrPipe_result = None,
           cmd_Start_result = Inr pid, wait = FirstLine [], ResolveTCPAddr = r\<rparr>
     (NewClient e0) =
     (spawned (NewClient (e0 @ ev)) pid,
      [ProcessStart pid, Go ''logStderr'', Go ''reaper'', Go ''scanner''],
      Inl (unrecognized [])) \<and>
   Start \<lparr>os_Environ = ev, StdoutPipe_result = None, StderrPipe_result = None,
           cmd_Start_result = Inr pid, wait = FirstLine ''udp|:1234'', ResolveTCPAddr = r\<rparr>
     (NewClient e0) =
     (spawned (NewClient (e0 @ ev)) pid,
      [ProcessStart pid, Go ''logStderr'', Go ''reaper'', Go ''scanner'', ProcessKill pid],
      Inl ''Unknown address type: udp'') \<and>
   proc (spawned (NewClient (e0 @ ev)) pid) = Some pid"
proof -
  have malformed: "handshake r ''hello'' = (None, Inl (unrecognized ''hello''))"
    by (simp add: handshake_def TrimSpace_def ascii_space_def utf8_space_def eval_nat_numeral)
  have empty: "handshake r [] = (None, Inl (unrecognized []))"
    by (simp add: handshake_def TrimSpace_def eval_nat_numeral)
  have unknown: "handshake r ''udp|:1234'' =
      (Some ''Unknown address type: udp'', Inl ''Unknown address type: udp'')"
    by (simp add: handshake_def TrimSpace_def ascii_space_def utf8_space_def eval_nat_numeral)
  show ?thesis
    by (simp add: Start_def Start_select_def Start_deferred_def NewClient_def malformed empty
        unknown spawned_def)
qed

lemma Start_success_addr: "Start env c = (c', evs, Inr a) \<Longrightarrow> addr c' = Some a"
  by (auto simp: Start_def Let_def split: option.splits sum.splits prod.splits)

lemma Start_cached: "addr c = Some a \<Longrightarrow> Start env c = (c, [], Inr a)"
  by (simp add: Start_def)

lemma step_keeps_addr:
  "step r a s = Some s' \<Longrightarrow> main s \<noteq> M_select \<Longrightarrow>
     addr (client s') = addr (client s) \<and> main s' \<noteq> M_select"
proof (cases a)
  case Logger_step
  then show "step r a s = Some s' \<Longrightarrow> main s \<noteq> M_select \<Longrightarrow>
     addr (client s') = addr (client s) \<and> main s' \<noteq> M_select"
    by (cases "logger s") auto
next
  case Reaper_step
  then show "step r a s = Some s' \<Longrightarrow> main s \<noteq> M_select \<Longrightarrow>
     addr (client s') = addr (client s) \<and> main s' \<noteq> M_select"
    by (cases "reaper s") (auto split: if_splits)
next
  case (Scanner_step l)
  then show "step r a s = Some s' \<Longrightarrow> main s \<noteq> M_select \<Longrightarrow>
     addr (client s') = addr (client s) \<and> main s' \<noteq> M_select"
    by (cases "scanner s"; cases l) auto
next
  case Kill_step
  then show "step r a s = Some s' \<Longrightarrow> main s \<noteq> M_select \<Longrightarrow>
     addr (client s') = addr (client s) \<and> main s' \<noteq> M_select"
    by (cases "main s") (auto split: if_splits)
qed (auto split: if_splits option.splits)

lemma run_keeps_addr:
  "run r as s = Some s' \<Longrightarrow> main s \<noteq> M_select \<Longrightarrow> addr (client s') = addr (client s)"
proof (induction as arbitrary: s)
  case Nil
  then show ?case by simp
next
  case (Cons a as)
  from Cons.prems(1) obtain s1 where s1: "step r a s = Some s1" and rest: "run r as s1 = Some s'"
    by (auto split: option.splits)
  from s1 Cons.prems(2) have "addr (client s1) = addr (client s) \<and> main s1 \<noteq> M_select"
    by (rule step_keeps_addr)
  with Cons.IH [OF rest] show ?case
    by simp
qed

text \<open>
  C8. When a call of \<open>Start\<close> has returned an address, the address is cached in \<open>addr\<close>.
  Every later call of \<open>Start\<close>, on the client as it then is (\<open>c''\<close>, with that \<open>addr\<close>)
  and whatever the environment, returns the same address and no error, makes no call at
  all (no second child) and leaves the client unchanged. And \<open>addr\<close> stays as it is:
  once \<open>Start\<close> has returned, no step of the supervisor (of a goroutine, of the child, of
  \<open>Kill\<close>) changes it.
\<close>

theorem Start_idempotent:
  "(Start env c = (c', evs, Inr a) \<and> addr c'' = addr c' \<longrightarrow>
      Start env' c'' = (c'', [], Inr a)) \<and>
   (run r as s = Some s' \<and> main s \<noteq> M_select \<longrightarrow> addr (client s') = addr (client s))"
proof -
  have again: "Start env' c'' = (c'', [], Inr a)"
    if h: "Start env c = (c', evs, Inr a) \<and> addr c'' = addr c'"
  proof -
    from h have "addr c' = Some a"
      using Start_success_addr by blast
    with h have "addr c'' = Some a"
      by simp
    then show ?thesis
      by (rule Start_cached)
  qed
  have kept: "addr (client s') = addr (client s)"
    if "run r as s = Some s' \<and> main s \<noteq> M_select"
    using that run_keeps_addr by blast
  from again kept show ?thesis
    by blast
qed

theorem Start_idempotent_witness:
  "Start \<lparr>os_Environ = [], StdoutPipe_result = None, StderrPipe_result = None,
           cmd_Start_result = Inr 42, wait = FirstLine ''tcp|:1234'',
           ResolveTCPAddr = (\<lambda>a. Inr a)\<rparr> (NewClient []) =
     (spawned (NewClient []) 42\<lparr>addr := Some (TCPAddr '':1234'')\<rparr>,
      [ProcessStart 42, Go ''logStderr'', Go ''reaper'', Go ''scanner''],
      Inr (TCPAddr '':1234'')) \<and>
   Start \<lparr>os_Environ = [], StdoutPipe_result = None, StderrPipe_result = None,
           cmd_Start_result = Inr 43, wait = Timeout, ResolveTCPAddr = (\<lambda>a. Inr a)\<rparr>
     (spawned (NewClient []) 42\<lparr>addr := Some (TCPAddr '':1234''), exited := True\<rparr>) =
     (spawned (NewClient []) 42\<lparr>addr := Some (TCPAddr '':1234''), exited := True\<rparr>, [],
      Inr (TCPAddr '':1234'')) \<and>
   (\<exists>s'. run (\<lambda>a. Inr a) [Child_exit, Kill_call, Kill_close False False, Kill_step]
           (started (NewClient []) 42
              \<lparr>client := spawned (NewClient []) 42\<lparr>addr := Some (TCPAddr '':1234'')\<rparr>,
               main := M_idle\<rparr>) = Some s' \<and>
         main s' = K_mark \<and> addr (client s') = Some (TCPAddr '':1234''))"
proof -
  let ?env = "\<lparr>os_Environ = [], StdoutPipe_result = None, StderrPipe_result = None,
           cmd_Start_result = Inr 42, wait = FirstLine ''tcp|:1234'',
           ResolveTCPAddr = (\<lambda>a. Inr a)\<rparr>"
  let ?env' = "\<lparr>os_Environ = [], StdoutPipe_result = None, StderrPipe_result = None,
           cmd_Start_result = Inr 43, wait = Timeout, ResolveTCPAddr = (\<lambda>a. Inr a)\<rparr>"
  let ?c' = "spawned (NewClient []) 42\<lparr>addr := Some (TCPAddr '':1234'')\<rparr>"
  let ?c'' = "spawned (NewClient []) 42\<lparr>addr := Some (TCPAddr '':1234''), exited := True\<rparr>"
  let ?as = "[Child_exit, Kill_call, Kill_close False False, Kill_step]"
  let ?s = "started (NewClient []) 42\<lparr>client := ?c', main := M_idle\<rparr>"
  have line: "handshake (\<lambda>a. Inr a) ''tcp|:1234'' = (None, Inr (TCPAddr '':1234''))"
    by (simp add: handshake_def TrimSpace_def ascii_space_def utf8_space_def eval_nat_numeral)
  have first: "Start ?env (NewClient []) =
      (?c', [ProcessStart 42, Go ''logStderr'', Go ''reaper'', Go ''scanner''],
       Inr (TCPAddr '':1234''))"
    by (simp add: Start_def Start_select_def Start_deferred_def NewClient_def line)
  have same: "addr ?c'' = addr ?c'"
    by simp
  from first same have second: "Start ?env' ?c'' = (?c'', [], Inr (TCPAddr '':1234''))"
    using Start_idempotent
      [where env = "?env" and c = "NewClient []" and c' = "?c'" and c'' = "?c''"
         and env' = "?env'" and a = "TCPAddr '':1234''"]
    by blast
  obtain s' where run: "run (\<lambda>a. Inr a) ?as ?s = Some s'" and pc: "main s' = K_mark"
    by (simp add: started_def spawned_def NewClient_def)
  have idle: "main ?s \<noteq> M_select"
    by (simp add: started_def)
  from run idle have "addr (client s') = addr (client ?s)"
    using Start_idempotent [where r = "\<lambda>a. Inr a" and as = "?as" and s = "?s" and s' = s']
    by blast
  then have "addr (client s') = Some (TCPAddr '':1234'')"
    by (simp add: started_def)
  with run pc have third: "\<exists>s'. run (\<lambda>a. Inr a) ?as ?s = Some s' \<and> main s' = K_mark \<and>
      addr (client s') = Some (TCPAddr '':1234'')"
    by blast
  from first second third show ?thesis
    by (intro conjI)
qed

section \<open>Properties of \<^verbatim>\<open>Client.Kill\<close>\<close>

lemma inv_started: "clientWg c = 0 \<Longrightarrow> stderrWg c = 0 \<Longrightarrow> supervisor_inv (started c pid)"
  by (simp add: supervisor_inv_def started_def spawned_def)

lemma reaper_holds_zero: "reaper_holds pc = 0 \<Longrightarrow> reaper_has_set pc \<and> reaper_waited pc"
  by (cases pc) simp_all

lemma inv_received: "supervisor_inv s \<Longrightarrow> main s = M_select \<Longrightarrow> supervisor_inv (received r t s)"
  by (clarsimp simp: supervisor_inv_def received_def split: prod.splits sum.splits)

lemma inv_step: "supervisor_inv s \<Longrightarrow> step r a s = Some s' \<Longrightarrow> supervisor_inv s'"
proof (cases a)
  case Child_exit
  then show "supervisor_inv s \<Longrightarrow> step r a s = Some s' \<Longrightarrow> supervisor_inv s'"
    by (clarsimp simp: supervisor_inv_def split: if_splits)
next
  case Logger_step
  then show "supervisor_inv s \<Longrightarrow> step r a s = Some s' \<Longrightarrow> supervisor_inv s'"
    by (cases "logger s") (clarsimp simp: supervisor_inv_def)+
next
  case Reaper_step
  then show "supervisor_inv s \<Longrightarrow> step r a s = Some s' \<Longrightarrow> supervisor_inv s'"
    by (cases "reaper s") (clarsimp simp: supervisor_inv_def split: if_splits)+
next
  case (Scanner_step l)
  then show "supervisor_inv s \<Longrightarrow> step r a s = Some s' \<Longrightarrow> supervisor_inv s'"
    by (cases "scanner s"; cases l) (clarsimp simp: supervisor_inv_def)+
next
  case Select_timeout
  then show "supervisor_inv s \<Longrightarrow> step r a s = Some s' \<Longrightarrow> supervisor_inv s'"
    by (clarsimp simp: supervisor_inv_def split: if_splits)
next
  case Select_done
  then show "supervisor_inv s \<Longrightarrow> step r a s = Some s' \<Longrightarrow> supervisor_inv s'"
    by (clarsimp simp: supervisor_inv_def split: if_splits)
next
  case Select_line
  assume i: "supervisor_inv s" and st: "step r a s = Some s'"
  from st Select_line have m: "main s = M_select"
    by (simp split: if_splits)
  have i2: "supervisor_inv (s\<lparr>scanner := S_scan\<rparr>)" if "scanner s = S_send t" for t
    using i that by (clarsimp simp: supervisor_inv_def)
  from st Select_line m show "supervisor_inv s'"
    by (cases "scanner s") (auto split: if_splits intro: inv_received i i2)
next
  case Kill_call
  then show "supervisor_inv s \<Longrightarrow> step r a s = Some s' \<Longrightarrow> supervisor_inv s'"
    by (clarsimp simp: supervisor_inv_def split: if_splits option.splits)
next
  case (Kill_close p q)
  then show "supervisor_inv s \<Longrightarrow> step r a s = Some s' \<Longrightarrow> supervisor_inv s'"
    by (clarsimp simp: supervisor_inv_def split: if_splits)
next
  case Kill_wait_done
  then show "supervisor_inv s \<Longrightarrow> step r a s = Some s' \<Longrightarrow> supervisor_inv s'"
    by (clarsimp simp: supervisor_inv_def split: if_splits)
next
  case Kill_wait_timeout
  then show "supervisor_inv s \<Longrightarrow> step r a s = Some s' \<Longrightarrow> supervisor_inv s'"
    by (clarsimp simp: supervisor_inv_def split: if_splits)
next
  case Kill_step
  then show "supervisor_inv s \<Longrightarrow> step r a s = Some s' \<Longrightarrow> supervisor_inv s'"
    by (cases "main s")
       (auto simp: supervisor_inv_def split: if_splits dest: reaper_holds_zero)
qed

lemma inv_run: "supervisor_inv s \<Longrightarrow> run r as s = Some s' \<Longrightarrow> supervisor_inv s'"
proof (induction as arbitrary: s)
  case Nil
  then show ?case by simp
next
  case (Cons a as)
  from Cons.prems(2) obtain s1 where s1: "step r a s = Some s1" and rest: "run r as s1 = Some s'"
    by (auto split: option.splits)
  from Cons.prems(1) s1 have "supervisor_inv s1"
    by (rule inv_step)
  then show ?case
    using rest by (rule Cons.IH)
qed

text \<open>
  C9. In every run of the supervisor after the child was started (whether or not the
  handshake then succeeds), once a call of \<open>Kill\<close> has returned, \<open>Exited()\<close> is true, the
  child is dead (the reaper has seen it) and \<open>proc\<close> is \<^verbatim>\<open>nil\<close>; a further call of
  \<open>Kill\<close> then returns at its first step and changes nothing in the supervisor.
\<close>

theorem Kill_returned_exited:
  "run r as (started (NewClient ev) pid) = Some s \<and> 0 < kills s \<longrightarrow>
     Exited (client s) \<and> proc (client s) = None \<and> \<not> child_alive s \<and>
     step r Kill_call s = Some (s\<lparr>kills := Suc (kills s)\<rparr>)"
proof
  assume h: "run r as (started (NewClient ev) pid) = Some s \<and> 0 < kills s"
  have "supervisor_inv (started (NewClient ev) pid)"
    by (rule inv_started) (simp_all add: NewClient_def)
  with h have "supervisor_inv s"
    using inv_run by blast
  with h have facts: "exited (client s)" "proc (client s) = None" "\<not> child_alive s"
    "main s = M_idle"
    by (simp_all add: supervisor_inv_def)
  then show "Exited (client s) \<and> proc (client s) = None \<and> \<not> child_alive s \<and>
     step r Kill_call s = Some (s\<lparr>kills := Suc (kills s)\<rparr>)"
    by (simp add: Exited_def)
qed

theorem Kill_returned_exited_witness:
  "\<exists>s. run (\<lambda>a. Inr a)
          [Scanner_step (Some ''tcp|:1234''), Select_line, Kill_call, Kill_close False False,
           Kill_step, Kill_step, Child_exit, Logger_step, Logger_step, Logger_step,
           Reaper_step, Reaper_step, Reaper_step, Reaper_step, Reaper_step,
           Scanner_step None, Scanner_step None, Scanner_step None, Kill_step, Kill_step]
          (started (NewClient []) 42) = Some s \<and>
        kills s = 1 \<and> addr (client s) = Some (TCPAddr '':1234'') \<and> procKilled (client s) \<and>
        Exited (client s) \<and> proc (client s) = None \<and> \<not> child_alive s \<and>
        step (\<lambda>a. Inr a) Kill_call s = Some (s\<lparr>kills := 2\<rparr>)"
proof -
  let ?as = "[Scanner_step (Some ''tcp|:1234''), Select_line, Kill_call, Kill_close False False,
           Kill_step, Kill_step, Child_exit, Logger_step, Logger_step, Logger_step,
           Reaper_step, Reaper_step, Reaper_step, Reaper_step, Reaper_step,
           Scanner_step None, Scanner_step None, Scanner_step None, Kill_step, Kill_step]"
  let ?s = "\<lparr>client =
       \<lparr>cmd_Env = [], exited = True, addr = Some (TCPAddr '':1234''), proc = None,
        proto = False, doneCtx = Some True, clientWg = 0, stderrWg = 0, procKilled = True\<rparr>,
     child_alive = False, linesCh_closed = True, logger = L_end, reaper = R_end,
     scanner = S_end, main = M_idle, kills = 1, signals = 1\<rparr>"
  have line: "handshake (\<lambda>a. Inr a) ''tcp|:1234'' = (None, Inr (TCPAddr '':1234''))"
    by (simp add: handshake_def TrimSpace_def ascii_space_def utf8_space_def eval_nat_numeral)
  have run: "run (\<lambda>a. Inr a) ?as (started (NewClient []) 42) = Some ?s"
    by (simp add: started_def spawned_def NewClient_def received_def line)
  have "run (\<lambda>a. Inr a) ?as (started (NewClient []) 42) = Some ?s \<and> 0 < kills ?s"
    using run by simp
  then have "Exited (client ?s) \<and> proc (client ?s) = None \<and> \<not> child_alive ?s \<and>
     step (\<lambda>a. Inr a) Kill_call ?s = Some (?s\<lparr>kills := Suc (kills ?s)\<rparr>)"
    using Kill_returned_exited
      [where r = "\<lambda>a. Inr a" and as = "?as" and ev = "[]" and pid = 42 and s = "?s"]
    by blast
  with run show ?thesis
    by (intro exI [of _ ?s]) simp
qed

end
